theory Spec2Isabelle
  imports Main "HOL-Library.AList"
begin

section \<open>JavaScript values and strings\<close>

text \<open>
  The fields of a JSON request body are dynamically typed. A field that is absent reads as
  \<open>undefined\<close>; arrays and objects are collapsed into \<open>JObject\<close>, since the handlers
  only test them for truthiness and call string methods on them. Numbers are the integral
  ones; a fractional number behaves like a non-zero integer in every test made here.
\<close>

datatype jsval = JUndefined | JNull | JBool bool | JNum int | JStr string | JObject

text \<open>\<open>!v\<close> is \<open>\<not> truthy v\<close>.\<close>

fun truthy :: "jsval \<Rightarrow> bool" where
  "truthy JUndefined = False"
| "truthy JNull = False"
| "truthy (JBool b) = b"
| "truthy (JNum n) = (n \<noteq> 0)"
| "truthy (JStr s) = (s \<noteq> [])"
| "truthy JObject = True"

text \<open>Exceptions that the modelled code can raise or receive.\<close>

datatype exn =
    TypeError        \<comment> \<open>a method called on a value that does not have it, a bad argument type\<close>
  | ReferenceError   \<comment> \<open>an identifier that is bound nowhere\<close>
  | IOError          \<comment> \<open>thrown by the \<open>fs\<close> module\<close>
  | FetchError       \<comment> \<open>\<open>fetch\<close> rejected, or \<open>new Error('Failed to get AI response')\<close>\<close>

type_synonym body = "string \<Rightarrow> jsval"

text \<open>
  A string is a list of 8-bit characters: ASCII text, or the bytes of UTF-8, none of which
  is an ASCII character unless it stands for one. \<open>String.prototype.toLowerCase\<close> is
  modelled on the letters \<open>A\<close> to \<open>Z\<close> and leaves every other character as it is. The
  results are only searched for lower-case ASCII keywords, so this agrees with JavaScript
  except on the two characters outside ASCII whose lower case holds an ASCII letter, the
  Kelvin sign (\<open>k\<close>) and the dotted capital I (\<open>i\<close>); the keywords of the server,
  \<open>calculator\<close> and \<open>todo\<close>, hold neither letter.
\<close>

definition lower_char :: "char \<Rightarrow> char" where
  "lower_char c =
     (let n = (of_char c :: nat) in if 65 \<le> n \<and> n \<le> 90 then char_of (n + 32) else c)"

definition toLowerCase :: "string \<Rightarrow> string" where
  "toLowerCase s = map lower_char s"

fun starts_with :: "string \<Rightarrow> string \<Rightarrow> bool" where
  "starts_with s [] = True"
| "starts_with [] (p # ps) = False"
| "starts_with (c # cs) (p # ps) = (c = p \<and> starts_with cs ps)"

text \<open>\<open>s.includes(sub)\<close>\<close>

fun includes_str :: "string \<Rightarrow> string \<Rightarrow> bool" where
  "includes_str [] sub = (sub = [])"
| "includes_str (c # cs) sub = (starts_with (c # cs) sub \<or> includes_str cs sub)"

text \<open>\<open>s.endsWith(suffix)\<close>\<close>

definition ends_with :: "string \<Rightarrow> string \<Rightarrow> bool" where
  "ends_with s suf = starts_with (rev s) (rev suf)"

text \<open>\<open>v.toLowerCase()\<close> on a dynamically typed value: only strings have the method.\<close>

fun js_toLowerCase :: "jsval \<Rightarrow> exn + string" where
  "js_toLowerCase (JStr s) = Inr (toLowerCase s)"
| "js_toLowerCase _ = Inl TypeError"

text \<open>\<open>s.split('\n')\<close>: never empty, \<open>''.split('\n')\<close> is \<open>['']\<close>.\<close>

fun split_lines :: "string \<Rightarrow> string list" where
  "split_lines [] = [[]]"
| "split_lines (c # cs) =
     (if c = CHR 0x0A then [] # split_lines cs
      else (case split_lines cs of l # ls \<Rightarrow> (c # l) # ls | [] \<Rightarrow> [[c]]))"

text \<open>Decimal rendering of a number inside a template literal.\<close>

fun digit_char :: "nat \<Rightarrow> char" where
  "digit_char n = char_of (48 + n mod 10)"

fun show_nat :: "nat \<Rightarrow> string" where
  "show_nat n = (if n < 10 then [digit_char n] else show_nat (n div 10) @ [digit_char n])"

declare show_nat.simps [simp del]

section \<open>The server: \<open>POST /api/ask\<close>\<close>

record file_entry =
  content :: string
  language :: string

text \<open>
  An object literal with string keys: the entries in insertion order. \<open>AList.update\<close> is
  the assignment \<open>obj[k] = v\<close>.
\<close>

type_synonym file_bundle = "(string \<times> file_entry) list"

text \<open>
  The template literals of the handler are opaque payloads: the contents of the six canned
  files and the two confirmation messages (which carry emoji) are parameters.
\<close>

record templates =
  calc_html :: string
  calc_css :: string
  calc_js :: string
  calc_created :: string
  todo_html :: string
  todo_css :: string
  todo_js :: string
  todo_created :: string

definition calculator_files :: "templates \<Rightarrow> file_bundle" where
  "calculator_files t =
     [(''index.html'', \<lparr>content = calc_html t, language = ''html''\<rparr>),
      (''style.css'', \<lparr>content = calc_css t, language = ''css''\<rparr>),
      (''script.js'', \<lparr>content = calc_js t, language = ''javascript''\<rparr>)]"

definition todo_files :: "templates \<Rightarrow> file_bundle" where
  "todo_files t =
     [(''index.html'', \<lparr>content = todo_html t, language = ''html''\<rparr>),
      (''style.css'', \<lparr>content = todo_css t, language = ''css''\<rparr>),
      (''script.js'', \<lparr>content = todo_js t, language = ''javascript''\<rparr>)]"

text \<open>
  Node's \<open>process\<close>, \<open>path\<close> and \<open>fs\<close> modules are the environment. The state of the disk
  is abstract; an operation of \<open>fs\<close> returns the new disk and the exception it threw, if
  any. \<open>path.join\<close> and \<open>fs.writeFileSync\<close> receive values of the request and throw on
  those they do not accept.
\<close>

record 'fs node_env =
  cwd :: string
  path_join :: "string \<Rightarrow> jsval \<Rightarrow> exn + string"
  path_dirname :: "string \<Rightarrow> string"
  existsSync :: "string \<Rightarrow> 'fs \<Rightarrow> bool"
  mkdirSync :: "string \<Rightarrow> 'fs \<Rightarrow> exn option \<times> 'fs"
  writeFileSync :: "string \<Rightarrow> jsval \<Rightarrow> 'fs \<Rightarrow> exn option \<times> 'fs"

text \<open>The process: the global slot \<open>global.projectFiles\<close> and the disk.\<close>

record 'fs server =
  projectFiles :: "file_bundle option"
  disk :: "'fs"

record app_plan =
  title :: string
  description :: string
  features :: "string list"

text \<open>
  The success body of \<open>/api/ask\<close>. A field of the JSON object that could be absent is an
  option; the handler sets every one of them.
\<close>

record ask_reply =
  response :: string
  success :: bool
  apiUsed :: string
  showBuildButton :: "bool option"
  appPlan :: "app_plan option"
  reply_files :: file_bundle
  projectSaved :: bool

record create_reply =
  created_success :: bool
  created_fileName :: jsval
  created_path :: string

record listed_file =
  listed_content :: string
  listed_type :: string

datatype reply_body =
    ErrorBody string              \<comment> \<open>\<open>{ error }\<close>\<close>
  | FailureBody string            \<comment> \<open>\<open>{ error, success: false }\<close>\<close>
  | AskBody ask_reply
  | CreateBody create_reply
  | ListBody "(string \<times> listed_file) list"   \<comment> \<open>\<open>{ files }\<close>\<close>

record http_response =
  status :: nat
  reply :: reply_body

text \<open>
  \<open>if (!fs.existsSync(aiGenDir)) fs.mkdirSync(aiGenDir, { recursive: true })\<close>
\<close>

definition ensure_dir :: "'fs node_env \<Rightarrow> string \<Rightarrow> 'fs \<Rightarrow> exn option \<times> 'fs" where
  "ensure_dir env dir d =
     (if \<not> existsSync env dir d then mkdirSync env dir d else (None, d))"

text \<open>
  \<open>Object.entries(files).forEach(([filename, file]) => { ... writeFileSync ... })\<close>: the
  first exception ends the loop and leaves the earlier writes on the disk.
\<close>

fun write_entries :: "'fs node_env \<Rightarrow> string \<Rightarrow> file_bundle \<Rightarrow> 'fs \<Rightarrow> exn option \<times> 'fs" where
  "write_entries env dir [] d = (None, d)"
| "write_entries env dir ((filename, file) # rest) d =
     (case path_join env dir (JStr filename) of
        Inl e \<Rightarrow> (Some e, d)
      | Inr filePath \<Rightarrow>
          (case writeFileSync env filePath (JStr (content file)) d of
             (Some e, d') \<Rightarrow> (Some e, d')
           | (None, d') \<Rightarrow> write_entries env dir rest d'))"

text \<open>\<open>path.join(process.cwd(), 'ai-generated')\<close>\<close>

definition aiGenDir :: "'fs node_env \<Rightarrow> exn + string" where
  "aiGenDir env = path_join env (cwd env) (JStr ''ai-generated'')"

definition calc_announce :: string where
  "calc_announce =
     ''I'' @ [CHR 0x27] @ ''ll create a modern calculator app with a sleek design and full functionality.''"

definition todo_announce :: string where
  "todo_announce =
     ''I'' @ [CHR 0x27] @ ''ll build a feature-rich todo list app with modern design and local storage.''"

definition generic_announce :: string where
  "generic_announce =
     ''I can help you build that! Let me know if you'' @ [CHR 0x27] @
     ''d like me to create the complete application with all files and functionality.''"

definition empty_announce :: string where
  "empty_announce =
     ''I'' @ [CHR 0x27] @
     ''m here to help you build amazing applications! What would you like to create?''"

text \<open>
  The calculator branch under \<open>requestType === 'build'\<close>: the bundle is bound to the local
  constant \<open>files\<close>, written to the disk, and only then stored in the global slot.
\<close>

definition build_calculator ::
  "'fs node_env \<Rightarrow> templates \<Rightarrow> 'fs server \<Rightarrow> (exn + string) \<times> 'fs server" where
  "build_calculator env t s =
     (let files = calculator_files t in
      case aiGenDir env of
        Inl e \<Rightarrow> (Inl e, s)
      | Inr dir \<Rightarrow>
          (case ensure_dir env dir (disk s) of
             (Some e, d1) \<Rightarrow> (Inl e, s\<lparr>disk := d1\<rparr>)
           | (None, d1) \<Rightarrow>
               (case write_entries env dir files d1 of
                  (Some e, d2) \<Rightarrow> (Inl e, s\<lparr>disk := d2\<rparr>)
                | (None, d2) \<Rightarrow>
                    (Inr (calc_created t), s\<lparr>disk := d2, projectFiles := Some files\<rparr>))))"

text \<open>
  The todo branch under \<open>requestType === 'build'\<close>: the bundle is assigned to
  \<open>global.projectFiles\<close> directly, the directory is ensured, and then
  \<open>Object.entries(files)\<close> reads the identifier \<open>files\<close>, which is bound nowhere in this
  branch (the calculator branch declares it in its own block): a ReferenceError. The
  statements after it are never reached.
\<close>

definition build_todo ::
  "'fs node_env \<Rightarrow> templates \<Rightarrow> 'fs server \<Rightarrow> (exn + string) \<times> 'fs server" where
  "build_todo env t s =
     (let s1 = s\<lparr>projectFiles := Some (todo_files t)\<rparr> in
      case aiGenDir env of
        Inl e \<Rightarrow> (Inl e, s1)
      | Inr dir \<Rightarrow>
          (case ensure_dir env dir (disk s1) of
             (Some e, d1) \<Rightarrow> (Inl e, s1\<lparr>disk := d1\<rparr>)
           | (None, d1) \<Rightarrow> (Inl ReferenceError, s1\<lparr>disk := d1\<rparr>)))"

text \<open>The keyword cascade: \<open>calculator\<close> is tested first, then \<open>todo\<close>.\<close>

definition generate_response ::
  "'fs node_env \<Rightarrow> templates \<Rightarrow> string \<Rightarrow> jsval \<Rightarrow> 'fs server \<Rightarrow> (exn + string) \<times> 'fs server"
  where
  "generate_response env t lowered requestType s =
     (if includes_str lowered ''calculator'' then
        (if requestType = JStr ''build'' then build_calculator env t s
         else (Inr calc_announce, s))
      else if includes_str lowered ''todo'' then
        (if requestType = JStr ''build'' then build_todo env t s
         else (Inr todo_announce, s))
      else (Inr generic_announce, s))"

text \<open>The plan object of \<open>requestType === 'plan'\<close>; here \<open>todo\<close> is tested first.\<close>

definition make_plan :: "string \<Rightarrow> app_plan" where
  "make_plan lowered =
     \<lparr>title =
        (if includes_str lowered ''todo'' then ''Todo List App''
         else if includes_str lowered ''calculator'' then ''Calculator App''
         else ''Custom App''),
      description =
        ''Build a '' @
        (if includes_str lowered ''todo'' then ''todo list''
         else if includes_str lowered ''calculator'' then ''calculator''
         else ''custom'') @ '' application'',
      features =
        (if includes_str lowered ''todo'' then
           [''Add/remove tasks'', ''Mark complete'', ''Filter tasks'', ''Local storage'']
         else if includes_str lowered ''calculator'' then
           [''Basic arithmetic'', ''Keyboard support'', ''Modern design'', ''Error handling'']
         else [''Custom functionality'', ''Modern design'', ''Responsive layout''])\<rparr>"

text \<open>\<open>global.projectFiles || {}\<close>\<close>

definition stored_bundle :: "'fs server \<Rightarrow> file_bundle" where
  "stored_bundle s = (case projectFiles s of None \<Rightarrow> [] | Some b \<Rightarrow> b)"

text \<open>The body of the \<open>try\<close> block, up to the object handed to \<open>res.json\<close>.\<close>

definition ask_try ::
  "'fs node_env \<Rightarrow> templates \<Rightarrow> jsval \<Rightarrow> jsval \<Rightarrow> 'fs server \<Rightarrow> (exn + ask_reply) \<times> 'fs server"
  where
  "ask_try env t prompt requestType s =
     (case js_toLowerCase prompt of
        Inl e \<Rightarrow> (Inl e, s)
      | Inr lowered \<Rightarrow>
          (case generate_response env t lowered requestType s of
             (Inl e, s') \<Rightarrow> (Inl e, s')
           | (Inr response0, s') \<Rightarrow>
               (let response1 = (if response0 = [] then empty_announce else response0);
                    plan = (requestType = JStr ''plan'');
                    stored = stored_bundle s'
                in (Inr \<lparr>response = response1,
                         success = True,
                         apiUsed = ''local'',
                         showBuildButton = Some plan,
                         appPlan = (if plan then Some (make_plan lowered) else None),
                         reply_files = stored,
                         projectSaved = (0 < length stored)\<rparr>, s'))))"

text \<open>
  \<open>app.post('/api/ask', ...)\<close>. \<open>requestType\<close> takes its default \<open>'chat'\<close> only when the
  field is \<open>undefined\<close>.
\<close>

definition ask_handler ::
  "'fs node_env \<Rightarrow> templates \<Rightarrow> body \<Rightarrow> 'fs server \<Rightarrow> http_response \<times> 'fs server" where
  "ask_handler env t req s =
     (let prompt = req ''prompt'';
          requestType =
            (if req ''requestType'' = JUndefined then JStr ''chat'' else req ''requestType'')
      in if \<not> truthy prompt then
           (\<lparr>status = 400, reply = ErrorBody ''Prompt is required''\<rparr>, s)
         else
           (case ask_try env t prompt requestType s of
              (Inr r, s') \<Rightarrow> (\<lparr>status = 200, reply = AskBody r\<rparr>, s')
            | (Inl e, s') \<Rightarrow>
                (\<lparr>status = 500, reply = FailureBody ''Internal server error''\<rparr>, s')))"

section \<open>The server: \<open>POST /api/files/create\<close>\<close>

text \<open>The body of the \<open>try\<close> block; on success, the path that was written.\<close>

definition create_try ::
  "'fs node_env \<Rightarrow> jsval \<Rightarrow> jsval \<Rightarrow> 'fs \<Rightarrow> (exn + string) \<times> 'fs" where
  "create_try env fileName contents d =
     (case aiGenDir env of
        Inl e \<Rightarrow> (Inl e, d)
      | Inr dir \<Rightarrow>
          (case ensure_dir env dir d of
             (Some e, d1) \<Rightarrow> (Inl e, d1)
           | (None, d1) \<Rightarrow>
               (case path_join env dir fileName of
                  Inl e \<Rightarrow> (Inl e, d1)
                | Inr filePath \<Rightarrow>
                    (case ensure_dir env (path_dirname env filePath) d1 of
                       (Some e, d2) \<Rightarrow> (Inl e, d2)
                     | (None, d2) \<Rightarrow>
                         (case writeFileSync env filePath contents d2 of
                            (Some e, d3) \<Rightarrow> (Inl e, d3)
                          | (None, d3) \<Rightarrow> (Inr filePath, d3))))))"

text \<open>\<open>app.post('/api/files/create', ...)\<close>; the field \<open>language\<close> of the body is read and not used.\<close>

definition create_handler :: "'fs node_env \<Rightarrow> body \<Rightarrow> 'fs \<Rightarrow> http_response \<times> 'fs" where
  "create_handler env req d =
     (let fileName = req ''fileName''; contents = req ''content''
      in if \<not> truthy fileName \<or> contents = JUndefined then
           (\<lparr>status = 400, reply = ErrorBody ''fileName and content are required''\<rparr>, d)
         else
           (case create_try env fileName contents d of
              (Inr filePath, d') \<Rightarrow>
                (\<lparr>status = 200,
                  reply = CreateBody \<lparr>created_success = True, created_fileName = fileName,
                                      created_path = filePath\<rparr>\<rparr>, d')
            | (Inl e, d') \<Rightarrow>
                (\<lparr>status = 500, reply = ErrorBody ''Failed to create file''\<rparr>, d')))"

section \<open>The server: \<open>GET /api/files/list\<close>\<close>

text \<open>
  What the listing reads of the output directory, as \<open>readdirSync\<close>, \<open>statSync\<close> and
  \<open>readFileSync\<close> report it: a file with its text, or \<open>None\<close> if reading it throws; a
  directory with its entries in the order \<open>readdirSync\<close> returns them; a directory that
  \<open>readdirSync\<close> throws on; an entry that is neither file nor directory; an entry that
  \<open>statSync\<close> throws on. \<open>statSync\<close> follows symbolic links, and a chain of links that
  never ends makes it throw after finitely many levels, so the tree is finite.
\<close>

datatype fs_node =
    File "string option"
  | Dir "(string \<times> fs_node) list"
  | LockedDir
  | Other
  | Broken

text \<open>\<open>path.extname\<close>: from the last dot of the name on, unless that dot is its first character.\<close>

definition extname :: "string \<Rightarrow> string" where
  "extname name =
     (let tail_rev = takeWhile (\<lambda>c. c \<noteq> CHR ''.'') (rev name)
      in if length tail_rev = length name \<or> Suc (length tail_rev) = length name then []
         else CHR ''.'' # rev tail_rev)"

definition file_type :: "string \<Rightarrow> string" where
  "file_type item =
     (let ext = toLowerCase (extname item)
      in if ext = ''.html'' then ''html''
         else if ext = ''.css'' then ''css''
         else if ext = ''.js'' \<or> ext = ''.jsx'' then ''javascript''
         else if ext = ''.ts'' \<or> ext = ''.tsx'' then ''typescript''
         else if ext = ''.py'' then ''python''
         else if ext = ''.json'' then ''json''
         else ''text'')"

text \<open>
  \<open>relativePath ? path.join(relativePath, item) : item\<close>. The names that \<open>readdirSync\<close>
  returns hold no separator, so joining is putting the separator between the two.
\<close>

definition relativeFilePath :: "string \<Rightarrow> string \<Rightarrow> string" where
  "relativeFilePath relativePath item =
     (if relativePath \<noteq> [] then relativePath @ ''/'' @ item else item)"

type_synonym listing = "(string \<times> listed_file) list"

text \<open>
  The loop of \<open>scanDirectory\<close> over the entries of one directory, with the object
  \<open>files\<close> threaded through. An exception of \<open>statSync\<close> or of the \<open>readdirSync\<close> of a
  subdirectory leaves the whole scan; one of \<open>readFileSync\<close> is caught per file.
\<close>

fun scanDirectory :: "(string \<times> fs_node) list \<Rightarrow> string \<Rightarrow> listing \<Rightarrow> exn + listing" where
  "scanDirectory [] relativePath files = Inr files"
| "scanDirectory ((item, node) # items) relativePath files =
     (if starts_with item ''.'' then scanDirectory items relativePath files
      else
        (case node of
           Broken \<Rightarrow> Inl IOError
         | File None \<Rightarrow> scanDirectory items relativePath files
         | File (Some text) \<Rightarrow>
             scanDirectory items relativePath
               (AList.update (relativeFilePath relativePath item)
                  \<lparr>listed_content = text, listed_type = file_type item\<rparr> files)
         | Dir entries \<Rightarrow>
             (case scanDirectory entries (relativeFilePath relativePath item) files of
                Inl e \<Rightarrow> Inl e
              | Inr files' \<Rightarrow> scanDirectory items relativePath files')
         | LockedDir \<Rightarrow> Inl IOError
         | Other \<Rightarrow> scanDirectory items relativePath files))"

text \<open>
  \<open>app.get('/api/files/list', ...)\<close>. The argument is the node at
  \<open>path.join(process.cwd(), 'ai-generated')\<close>, \<open>None\<close> when \<open>existsSync\<close> is false.
  \<open>scanDirectory(projectDir)\<close> calls \<open>readdirSync\<close> on it without a \<open>statSync\<close>.
\<close>

definition list_handler :: "fs_node option \<Rightarrow> http_response" where
  "list_handler projectDir =
     (case projectDir of
        None \<Rightarrow> \<lparr>status = 200, reply = ListBody []\<rparr>
      | Some (Dir entries) \<Rightarrow>
          (case scanDirectory entries [] [] of
             Inr files \<Rightarrow> \<lparr>status = 200, reply = ListBody files\<rparr>
           | Inl e \<Rightarrow> \<lparr>status = 200, reply = ListBody []\<rparr>)
      | Some _ \<Rightarrow> \<lparr>status = 200, reply = ListBody []\<rparr>)"

text \<open>
  The specification of the listing, in its own words: the readable files that are reached
  through names not beginning with a dot, each under its relative path with its text and
  type, in the order of the scan. It is compared with \<open>scanDirectory\<close> below.
\<close>

fun readable_files :: "(string \<times> fs_node) list \<Rightarrow> string \<Rightarrow> listing" where
  "readable_files [] relativePath = []"
| "readable_files ((item, node) # items) relativePath =
     (if starts_with item ''.'' then []
      else
        (case node of
           File (Some body) \<Rightarrow>
             [(relativeFilePath relativePath item,
               \<lparr>listed_content = body, listed_type = file_type item\<rparr>)]
         | Dir entries \<Rightarrow> readable_files entries (relativeFilePath relativePath item)
         | _ \<Rightarrow> [])) @ readable_files items relativePath"

text \<open>
  The directory without what the listing is said to ignore: every entry whose name
  begins with a dot and every file that cannot be read, at any depth.
\<close>

fun prune :: "(string \<times> fs_node) list \<Rightarrow> (string \<times> fs_node) list" where
  "prune [] = []"
| "prune ((item, node) # items) =
     (if starts_with item ''.'' then prune items
      else
        (case node of
           File None \<Rightarrow> prune items
         | Dir entries \<Rightarrow> (item, Dir (prune entries)) # prune items
         | _ \<Rightarrow> (item, node) # prune items))"

section \<open>The client: file names, code blocks and the typing animation\<close>

text \<open>
  \<open>generateFileName(content, language, index)\<close>. The arguments are as the call sites pass
  them: \<open>language\<close> can be any value (two of the call sites pass the loop counter in its
  place), and \<open>index\<close> is a number or \<open>undefined\<close> (\<open>None\<close>), for which \<open>index + 1\<close> is
  \<open>NaN\<close>.
\<close>

definition name_parts :: "string \<Rightarrow> string \<Rightarrow> string \<times> string" where
  "name_parts contents lang =
     (if lang = ''html'' then (''index'', ''html'')
      else if lang = ''css'' then (''styles'', ''css'')
      else if lang = ''javascript'' \<or> lang = ''js'' then (''script'', ''js'')
      else if lang = ''typescript'' \<or> lang = ''ts'' then (''app'', ''ts'')
      else if lang = ''python'' \<or> lang = ''py'' then (''main'', ''py'')
      else if lang = ''json'' then (''package'', ''json'')
      else if includes_str contents ''<!DOCTYPE html>'' \<or> includes_str contents ''<html''
        then (''index'', ''html'')
      else if includes_str contents ''body {'' \<or> includes_str contents ''@media''
        then (''styles'', ''css'')
      else if includes_str contents ''function'' \<or> includes_str contents ''const '' \<or>
              includes_str contents ''let ''
        then (''script'', ''js'')
      else (''file'', ''txt''))"

definition generateFileName :: "string \<Rightarrow> jsval \<Rightarrow> nat option \<Rightarrow> exn + string" where
  "generateFileName contents lang index =
     (case js_toLowerCase lang of
        Inl e \<Rightarrow> Inl e
      | Inr l \<Rightarrow>
          (case name_parts contents l of
             (baseName, extension) \<Rightarrow>
               Inr (case index of
                      Some i \<Rightarrow>
                        (if i = 0 then baseName @ ''.'' @ extension
                         else baseName @ show_nat (i + 1) @ ''.'' @ extension)
                    | None \<Rightarrow> baseName @ ''NaN'' @ ''.'' @ extension)))"

text \<open>The labels of the \<open>switch\<close>; every other language falls to its \<open>default\<close>.\<close>

definition known_languages :: "string list" where
  "known_languages =
     [''html'', ''css'', ''javascript'', ''js'', ''typescript'', ''ts'', ''python'', ''py'', ''json'']"

text \<open>The character class \<open>\w\<close>, the fence of three backquotes and the line feed.\<close>

definition word_char :: "char \<Rightarrow> bool" where
  "word_char c =
     (let n = (of_char c :: nat)
      in (48 \<le> n \<and> n \<le> 57) \<or> (65 \<le> n \<and> n \<le> 90) \<or> n = 95 \<or> (97 \<le> n \<and> n \<le> 122))"

definition fence :: string where
  "fence = [CHR 0x60, CHR 0x60, CHR 0x60]"

definition LF :: char where
  "LF = CHR 0x0A"

text \<open>The text before the first fence, if there is a fence: the lazy \<open>[\s\S]*?\<close> up to it.\<close>

fun until_fence :: "string \<Rightarrow> string option" where
  "until_fence [] = None"
| "until_fence (c # cs) =
     (if starts_with (c # cs) fence then Some []
      else map_option ((#) c) (until_fence cs))"

text \<open>
  One match of the regular expression
  \<^verbatim>\<open>/```[\w+]?\n([\s\S]*?)```/\<close>
  anchored at the head of the string: the fence, at most one character that is a word
  character or a plus sign, a line feed, the shortest text up to the next fence, and that
  fence. The result is the matched text.
\<close>

definition block_at :: "string \<Rightarrow> string option" where
  "block_at s =
     (if \<not> starts_with s fence then None
      else
        (case drop 3 s of
           [] \<Rightarrow> None
         | c # r \<Rightarrow>
             (if c = LF then map_option (\<lambda>b. fence @ [LF] @ b @ fence) (until_fence r)
              else if word_char c \<or> c = CHR ''+'' then
                (case r of
                   [] \<Rightarrow> None
                 | c2 # r2 \<Rightarrow>
                     (if c2 = LF
                      then map_option (\<lambda>b. fence @ [c, LF] @ b @ fence) (until_fence r2)
                      else None))
              else None)))"

text \<open>
  \<open>text.match(/.../g)\<close>: all matches from left to right, the search resuming behind each
  match. The first argument counts the characters still covered by the last match.
  \<open>null\<close>, the result when nothing matches, becomes \<open>[]\<close> at every call site.
\<close>

fun scan_blocks :: "nat \<Rightarrow> string \<Rightarrow> string list" where
  "scan_blocks k [] = []"
| "scan_blocks (Suc k) (c # cs) = scan_blocks k cs"
| "scan_blocks 0 (c # cs) =
     (case block_at (c # cs) of
        Some m \<Rightarrow> m # scan_blocks (length m - 1) cs
      | None \<Rightarrow> scan_blocks 0 cs)"

definition match_code_blocks :: "string \<Rightarrow> string list" where
  "match_code_blocks s = scan_blocks 0 s"

text \<open>
  \<^verbatim>\<open>block.match(/```(\w+)/)\<close>: the first fence that a word character follows, and the
  run of word characters behind it.
\<close>

fun languageMatch :: "string \<Rightarrow> string option" where
  "languageMatch [] = None"
| "languageMatch (c # cs) =
     (if starts_with (c # cs) fence \<and>
         (case drop 3 (c # cs) of [] \<Rightarrow> False | x # _ \<Rightarrow> word_char x)
      then Some (takeWhile word_char (drop 3 (c # cs)))
      else languageMatch cs)"

text \<open>
  \<^verbatim>\<open>block.replace(/```\w*\n/, '')\<close>: the first fence followed by word characters and a
  line feed is removed.
\<close>

fun strip_open :: "string \<Rightarrow> string" where
  "strip_open [] = []"
| "strip_open (c # cs) =
     (let r = dropWhile word_char (drop 3 (c # cs))
      in if starts_with (c # cs) fence \<and> (case r of [] \<Rightarrow> False | x # _ \<Rightarrow> x = LF)
         then tl r
         else c # strip_open cs)"

text \<open>\<^verbatim>\<open>.replace(/```$/, '')\<close>: a fence at the very end is removed.\<close>

definition strip_close :: "string \<Rightarrow> string" where
  "strip_close s = (if ends_with s fence then take (length s - 3) s else s)"

definition block_language :: "string \<Rightarrow> string" where
  "block_language block = (case languageMatch block of Some l \<Rightarrow> l | None \<Rightarrow> ''text'')"

definition block_code :: "string \<Rightarrow> string" where
  "block_code block = strip_close (strip_open block)"

text \<open>
  \<open>Math.round((i / lines.length) * 100)\<close>. The quotient and the product are computed in
  double precision. When \<open>100 * i / n\<close> is not halfway between two integers, the result
  is the nearest integer. When it is, \<open>Math.round\<close> would round up, but the rounding
  error of the two floating-point operations can leave the value just below the half
  (\<open>i = 23\<close>, \<open>n = 40\<close> gives \<open>57.49999999999999\<close>), so the outcome at a tie is given by
  the caller: \<open>half_up i n\<close> says whether the tie at \<open>i\<close> of \<open>n\<close> goes up.
\<close>

definition round_percent :: "(nat \<Rightarrow> nat \<Rightarrow> bool) \<Rightarrow> nat \<Rightarrow> nat \<Rightarrow> nat" where
  "round_percent half_up i n =
     (let x = 200 * i + n; d = 2 * n
      in if x mod d = 0 \<and> \<not> half_up i n then x div d - 1 else x div d)"

section \<open>The client: state of the chat component\<close>

datatype sender = User | AI

datatype message_type = System | Code | Normal | Response

record metadata =
  filesGenerated :: "string list option"
  technologies :: "string list option"
  estimatedLines :: "nat option"

text \<open>
  A chat message. Its \<open>id\<close> and \<open>timestamp\<close> are read from the clock and are left out.
\<close>

record chat_message =
  msg_sender :: sender
  msg_content :: string
  msg_type :: message_type
  msg_metadata :: "metadata option"

record live_coding =
  fileName :: string
  lc_content :: string
  isActive :: bool
  lc_language :: string
  progress :: nat
  complexity :: string
  patterns :: "string list"

text \<open>What the component passes to \<open>onConsoleLog\<close>; the texts carry emoji and are named.\<close>

datatype console_event =
    CreatedFile string
  | GeneratedFiles nat
  | FailedToGenerate
  | ProjectSaved
  | FailedToSave
  | GenerationCancelled
  | FailedToProcess
  | Checkpoint

record project_file =
  pf_name :: string
  pf_content :: string
  pf_language :: string

record project_data =
  pd_name :: string
  pd_description :: string
  pd_prompt :: string
  pd_files :: "project_file list"

text \<open>
  The state of \<open>ChatInterface\<close>. \<open>tokens\<close> is the store of the \<open>CancelToken\<close> objects
  created so far, each reduced to its field \<open>cancelled\<close>; a token is referred to by its
  position in the store. The last six fields record what the component emits: the calls
  of \<open>onConsoleLog\<close>, \<open>onFileGenerated\<close> and \<open>createProject.mutateAsync\<close>, the files
  handed to \<open>simulateTyping\<close>, the values that \<open>simulateTyping\<close> assigns to
  \<open>liveCoding.progress\<close>, and the number of \<open>await\<close>s passed.
\<close>

record client =
  messages :: "chat_message list"
  inputValue :: string
  isLoading :: bool
  currentStage :: string
  liveCoding :: live_coding
  isGenerationMode :: bool
  generationComplete :: bool
  errorAlerts :: "string list"
  cancelToken :: "nat option"
  tokens :: "bool list"
  console :: "console_event list"
  generated :: "(string \<times> string \<times> string) list"
  projects :: "project_data list"
  typed :: "string list"
  reports :: "nat list"
  ticks :: nat

datatype fetch_result = Rejected | Replied bool body

text \<open>
  What the component does not decide: whether the user presses Cancel during the \<open>k\<close>-th
  \<open>await\<close>, how ties of \<open>Math.round\<close> fall, what \<open>fetch\<close> returns for an endpoint and
  a prompt (\<open>Rejected\<close> stands for a promise that rejects, of \<open>fetch\<close> or of
  \<open>response.json()\<close>), the text that \<open>generateLocalCode\<close> picks at random among its
  canned answers, and whether \<open>createProject.mutateAsync\<close> succeeds.
\<close>

record world =
  click :: "nat \<Rightarrow> bool"
  half_up :: "nat \<Rightarrow> nat \<Rightarrow> bool"
  fetch :: "string \<Rightarrow> string \<Rightarrow> fetch_result"
  generateLocalCode :: "string \<Rightarrow> string"
  save_ok :: bool

subsection \<open>Cancel tokens\<close>

text \<open>
  \<open>createCancelToken\<close> allocates a new object with \<open>cancelled: false\<close>; \<open>token.cancel()\<close>
  sets the field of that object. No other code writes the field.
\<close>

definition createCancelToken :: "bool list \<Rightarrow> nat \<times> bool list" where
  "createCancelToken store = (length store, store @ [False])"

definition cancel :: "nat \<Rightarrow> bool list \<Rightarrow> bool list" where
  "cancel token store = (if token < length store then store[token := True] else store)"

definition cancelled :: "nat \<Rightarrow> bool list \<Rightarrow> bool" where
  "cancelled token store = (token < length store \<and> store ! token)"

datatype token_op = Create | Cancel nat

fun token_step :: "token_op \<Rightarrow> bool list \<Rightarrow> bool list" where
  "token_step Create store = snd (createCancelToken store)"
| "token_step (Cancel token) store = cancel token store"

definition log_event :: "console_event \<Rightarrow> client \<Rightarrow> client" where
  "log_event e s = s\<lparr>console := console s @ [e]\<rparr>"

definition handleCancel :: "client \<Rightarrow> client" where
  "handleCancel s =
     (let s1 = (case cancelToken s of
                  Some token \<Rightarrow> s\<lparr>tokens := cancel token (tokens s), cancelToken := None\<rparr>
                | None \<Rightarrow> s)
      in log_event GenerationCancelled
           (s1\<lparr>isLoading := False, currentStage := [],
               liveCoding := (liveCoding s1)\<lparr>isActive := False\<rparr>\<rparr>))"

text \<open>
  An \<open>await\<close>: the only place where another handler can run. The Cancel button is
  rendered while \<open>isLoading && currentStage\<close> holds; if the user presses it during this
  \<open>await\<close>, \<open>handleCancel\<close> runs before the awaiting function resumes.
\<close>

definition pause :: "world \<Rightarrow> client \<Rightarrow> client" where
  "pause w s =
     (let s' = s\<lparr>ticks := ticks s + 1\<rparr>
      in if click w (ticks s) \<and> isLoading s \<and> currentStage s \<noteq> [] then handleCancel s'
         else s')"

subsection \<open>\<open>simulateTyping\<close>\<close>

text \<open>
  The loop over the lines: \<open>i\<close> is the index of the head of the remaining lines, \<open>n\<close> the
  number of lines of the file. The lengths of the delays are not modelled.
\<close>

fun typing_loop :: "world \<Rightarrow> string list \<Rightarrow> nat \<Rightarrow> nat \<Rightarrow> string \<Rightarrow> client \<Rightarrow> client" where
  "typing_loop w [] i n currentContent s = s"
| "typing_loop w (l # ls) i n currentContent s =
     (let currentContent' = currentContent @ l @ [LF];
          p = round_percent (half_up w) i n;
          s1 = s\<lparr>liveCoding := (liveCoding s)\<lparr>lc_content := currentContent', progress := p\<rparr>,
                 reports := reports s @ [p]\<rparr>
      in typing_loop w ls (i + 1) n currentContent' (pause w s1))"

definition simulateTyping :: "world \<Rightarrow> string \<Rightarrow> string \<Rightarrow> string \<Rightarrow> client \<Rightarrow> client" where
  "simulateTyping w code name lang s =
     (let lines = split_lines code;
          n = length lines;
          s1 = s\<lparr>liveCoding := (liveCoding s)
                   \<lparr>fileName := name, lc_language := lang,
                    complexity :=
                      (if n > 50 then ''complex'' else if n > 25 then ''medium'' else ''simple''),
                    patterns := [''AI-Powered Generation'', ''Production Ready'',
                                 ''Modern Architecture''],
                    isActive := True\<rparr>,
                 typed := typed s @ [name]\<rparr>;
          s2 = typing_loop w lines 0 n [] s1
      in s2\<lparr>liveCoding := (liveCoding s2)\<lparr>lc_content := code, progress := 100, isActive := False\<rparr>,
            reports := reports s2 @ [100]\<rparr>)"

subsection \<open>\<open>saveProject\<close>\<close>

definition file_language :: "string \<Rightarrow> string" where
  "file_language name =
     (if ends_with name ''.html'' then ''html''
      else if ends_with name ''.js'' then ''javascript''
      else if ends_with name ''.css'' then ''css''
      else ''text'')"

text \<open>
  \<open>filesCreated.map((fileName, index) => ({ ..., content: codeBlocks[index] || '' }))\<close>:
  an index beyond the array reads \<open>undefined\<close>, which becomes the empty string.
\<close>

fun project_files :: "nat \<Rightarrow> string list \<Rightarrow> string list \<Rightarrow> project_file list" where
  "project_files index [] codeBlocks = []"
| "project_files index (name # names) codeBlocks =
     \<lparr>pf_name = name,
      pf_content = (if index < length codeBlocks then codeBlocks ! index else []),
      pf_language = file_language name\<rparr> # project_files (index + 1) names codeBlocks"

text \<open>
  \<open>saveProject\<close> catches whatever \<open>createProject.mutateAsync\<close> throws, so it never
  throws itself.
\<close>

definition saveProject :: "world \<Rightarrow> string \<Rightarrow> string list \<Rightarrow> string list \<Rightarrow> client \<Rightarrow> client"
  where
  "saveProject w prompt filesCreated codeBlocks s =
     (let projectData =
            \<lparr>pd_name = ''AI Generated - '' @ take 30 prompt @ ''...'',
             pd_description = ''Created from prompt: '' @ prompt,
             pd_prompt = prompt,
             pd_files = project_files 0 filesCreated codeBlocks\<rparr>;
          s1 = pause w s
      in if save_ok w then log_event ProjectSaved (s1\<lparr>projects := projects s1 @ [projectData]\<rparr>)
         else log_event FailedToSave s1)"

subsection \<open>\<open>handleFileGeneration\<close>\<close>

text \<open>
  The loop over the code blocks, in the \<open>try\<close> block (\<open>announce\<close>, which logs each file)
  and in the fallback of the \<open>catch\<close> block. The token is tested at the head of every
  iteration and \<open>break\<close> leaves the loop with the files created so far. The file name is
  asked for with \<open>generateFileName(code, i)\<close>: the loop counter stands where the language
  is expected and no index is given. An exception leaves the loop.
\<close>

fun generation_loop ::
  "world \<Rightarrow> nat \<Rightarrow> bool \<Rightarrow> string list \<Rightarrow> nat \<Rightarrow> string list \<Rightarrow> client
     \<Rightarrow> (exn + string list) \<times> client" where
  "generation_loop w token announce [] i filesCreated s = (Inr filesCreated, s)"
| "generation_loop w token announce (block # blocks) i filesCreated s =
     (if cancelled token (tokens s) then (Inr filesCreated, s)
      else
        (let lang = block_language block;
             code = block_code block
         in case generateFileName code (JNum (int i)) None of
              Inl e \<Rightarrow> (Inl e, s)
            | Inr name \<Rightarrow>
                (let s1 = s\<lparr>generated := generated s @ [(name, code, lang)]\<rparr>;
                     s2 = simulateTyping w code name lang s1;
                     s3 = (if announce then log_event (CreatedFile name) s2 else s2)
                 in generation_loop w token announce blocks (i + 1) (filesCreated @ [name]) s3)))"

definition ai_message :: "string \<Rightarrow> string list \<Rightarrow> string list \<Rightarrow> chat_message" where
  "ai_message aiResponse codeBlocks filesCreated =
     \<lparr>msg_sender = AI,
      msg_content = aiResponse,
      msg_type = (if codeBlocks \<noteq> [] then Code else Normal),
      msg_metadata =
        (if filesCreated \<noteq> [] then
           Some \<lparr>filesGenerated = Some filesCreated,
                 technologies = Some [''HTML'', ''CSS'', ''JavaScript''],
                 estimatedLines = Some (sum_list (map (\<lambda>b. length (split_lines b)) codeBlocks))\<rparr>
         else None)\<rparr>"

text \<open>
  The \<open>try\<close> block: the request to \<open>/api/ask\<close>, the loop, and the chat message. The message
  is appended behind the loop however the loop ended.
\<close>

definition generation_try :: "world \<Rightarrow> string \<Rightarrow> nat \<Rightarrow> client \<Rightarrow> exn option \<times> client" where
  "generation_try w userInput token s =
     (let s1 = pause w s
      in case fetch w ''/api/ask'' userInput of
           Rejected \<Rightarrow> (Some FetchError, s1)
         | Replied ok data \<Rightarrow>
             (if \<not> ok then (Some FetchError, s1)
              else
                (let s2 = pause w s1
                 in case data ''response'' of
                      JStr aiResponse \<Rightarrow>
                        (let codeBlocks = match_code_blocks aiResponse
                         in case generation_loop w token True codeBlocks 0 [] s2 of
                              (Inl e, s3) \<Rightarrow> (Some e, s3)
                            | (Inr filesCreated, s3) \<Rightarrow>
                                (let s4 = (if filesCreated \<noteq> []
                                           then saveProject w userInput filesCreated codeBlocks s3
                                           else s3);
                                     s5 = s4\<lparr>messages := messages s4 @
                                            [ai_message aiResponse codeBlocks filesCreated]\<rparr>
                                 in (None,
                                     if filesCreated \<noteq> [] then
                                       log_event (GeneratedFiles (length filesCreated))
                                         (s5\<lparr>generationComplete := True,
                                             isGenerationMode := False\<rparr>)
                                     else s5)))
                    | _ \<Rightarrow> (Some TypeError, s2))))"

text \<open>The \<open>catch\<close> block: the same with a canned answer; nothing catches its exceptions.\<close>

definition generation_fallback :: "world \<Rightarrow> string \<Rightarrow> nat \<Rightarrow> client \<Rightarrow> exn option \<times> client"
  where
  "generation_fallback w userInput token s =
     (let s0 = log_event FailedToGenerate s;
          aiResponse = generateLocalCode w userInput;
          codeBlocks = match_code_blocks aiResponse
      in case generation_loop w token False codeBlocks 0 [] s0 of
           (Inl e, s1) \<Rightarrow> (Some e, s1)
         | (Inr filesCreated, s1) \<Rightarrow>
             (None, s1\<lparr>messages := messages s1 @
                          [ai_message aiResponse codeBlocks filesCreated]\<rparr>))"

text \<open>
  \<open>handleFileGeneration(userInput, token)\<close>: three stages, each followed by a delay and a
  test of the token that returns, then the \<open>try\<close> and \<open>catch\<close> blocks. The result holds
  the exception that escapes, if any.
\<close>

definition handleFileGeneration :: "world \<Rightarrow> string \<Rightarrow> nat \<Rightarrow> client \<Rightarrow> exn option \<times> client"
  where
  "handleFileGeneration w userInput token s =
     (let s1 = pause w
                 (s\<lparr>currentStage := ''analysis'',
                    liveCoding := (liveCoding s)
                      \<lparr>isActive := True, fileName := ''Loading...'', lc_content := []\<rparr>\<rparr>)
      in if cancelled token (tokens s1) then (None, s1)
         else
           (let s2 = pause w (s1\<lparr>currentStage := ''architecture''\<rparr>)
            in if cancelled token (tokens s2) then (None, s2)
               else
                 (let s3 = pause w (s2\<lparr>currentStage := ''structure''\<rparr>)
                  in if cancelled token (tokens s3) then (None, s3)
                     else
                       (case generation_try w userInput token s3 of
                          (None, s4) \<Rightarrow> (None, s4\<lparr>currentStage := ''complete''\<rparr>)
                        | (Some e, s4) \<Rightarrow>
                            (case generation_fallback w userInput token s4 of
                               (None, s5) \<Rightarrow> (None, s5\<lparr>currentStage := ''complete''\<rparr>)
                             | (Some e', s5) \<Rightarrow> (Some e', s5))))))"

subsection \<open>\<open>handleAIResponse\<close> and \<open>handleSubmit\<close>\<close>

definition codeKeywords :: "string list" where
  "codeKeywords =
     [''create'', ''build'', ''make'', ''generate'', ''develop'', ''write'', ''code'', ''app'',
      ''application'', ''website'', ''web'', ''function'', ''component'', ''class'', ''module'',
      ''script'', ''program'', ''todo'', ''calculator'', ''game'', ''dashboard'', ''form'',
      ''login'', ''signup'', ''api'', ''database'', ''add'', ''implement'', ''design'', ''setup'',
      ''configure'']"

text \<open>\<open>String.prototype.trim\<close> on the ASCII white space.\<close>

definition white_space :: "char \<Rightarrow> bool" where
  "white_space c = (let n = (of_char c :: nat) in (9 \<le> n \<and> n \<le> 13) \<or> n = 32)"

definition trim :: "string \<Rightarrow> string" where
  "trim s = rev (dropWhile white_space (rev (dropWhile white_space s)))"

definition isCodeGenerationRequest :: "string \<Rightarrow> bool" where
  "isCodeGenerationRequest input =
     (let lowerInput = trim (toLowerCase input)
      in list_ex (\<lambda>keyword. includes_str lowerInput keyword) codeKeywords)"

text \<open>The other branch of \<open>handleAIResponse\<close>: one request, and a log line at a checkpoint.\<close>

definition plain_request :: "world \<Rightarrow> string \<Rightarrow> client \<Rightarrow> exn option \<times> client" where
  "plain_request w userInput s =
     (let lowered = toLowerCase userInput;
          isAgentMode = (includes_str lowered ''agent'' \<or> includes_str lowered ''build'' \<or>
                         includes_str lowered ''create'' \<or> includes_str lowered ''make'');
          endpoint = (if isAgentMode then ''/api/agent/generate'' else ''/api/ask'');
          s1 = pause w s
      in case fetch w endpoint userInput of
           Rejected \<Rightarrow> (Some FetchError, s1)
         | Replied ok data \<Rightarrow>
             (if \<not> ok then (Some FetchError, s1)
              else
                (let s2 = pause w s1
                 in (None, if truthy (data ''checkpoint'') then log_event Checkpoint s2 else s2))))"

text \<open>
  The \<open>catch\<close> and \<open>finally\<close> blocks of \<open>handleAIResponse\<close>, applied to the outcome of
  its \<open>try\<close> block.
\<close>

definition settle_attempt :: "exn option \<times> client \<Rightarrow> client" where
  "settle_attempt outcome =
     (let s2 = (case fst outcome of
                  None \<Rightarrow> snd outcome
                | Some e \<Rightarrow>
                    (log_event FailedToProcess (snd outcome))
                      \<lparr>errorAlerts := errorAlerts (snd outcome) @
                         [''Failed to process your request. Please try again.'']\<rparr>)
      in s2\<lparr>isLoading := False, currentStage := [],
            liveCoding := (liveCoding s2)\<lparr>isActive := False\<rparr>, cancelToken := None\<rparr>)"

text \<open>
  \<open>handleAIResponse\<close>: a token is created for this attempt and stored in the state; the
  \<open>finally\<close> block clears it. \<open>isGenerationMode\<close> is the value the callback closed over,
  that of the state it starts in.
\<close>

definition handleAIResponse :: "world \<Rightarrow> string \<Rightarrow> client \<Rightarrow> client" where
  "handleAIResponse w userInput s =
     (let s0 = s\<lparr>isLoading := True, currentStage := [],
                 liveCoding := (liveCoding s)\<lparr>isActive := False\<rparr>\<rparr>;
          created = createCancelToken (tokens s0);
          token = fst created;
          s1 = s0\<lparr>tokens := snd created, cancelToken := Some token\<rparr>
      in settle_attempt
           (if isCodeGenerationRequest userInput \<and> isGenerationMode s
            then handleFileGeneration w userInput token s1
            else plain_request w userInput s1))"

text \<open>
  \<open>handleSubmit(inputText)\<close>: the user message is appended, then the attempt runs.
  \<open>None\<close> is a call without argument, which takes the text of the input field.
\<close>

definition handleSubmit :: "world \<Rightarrow> string option \<Rightarrow> client \<Rightarrow> client" where
  "handleSubmit w inputText s =
     (let messageText = (case inputText of
                           Some t \<Rightarrow> (if t \<noteq> [] then t else trim (inputValue s))
                         | None \<Rightarrow> trim (inputValue s))
      in if messageText = [] \<or> isLoading s then s
         else
           handleAIResponse w messageText
             (s\<lparr>messages := messages s @
                   [\<lparr>msg_sender = User, msg_content = messageText, msg_type = Normal,
                     msg_metadata = None\<rparr>],
                inputValue := []\<rparr>))"

text \<open>The component as it is mounted: the greeting, generation mode on, no token.\<close>

definition initial_client :: "string \<Rightarrow> client" where
  "initial_client greeting =
     \<lparr>messages = [\<lparr>msg_sender = AI, msg_content = greeting, msg_type = System,
                   msg_metadata = None\<rparr>],
      inputValue = [], isLoading = False, currentStage = [],
      liveCoding = \<lparr>fileName = [], lc_content = [], isActive = False, lc_language = [],
                    progress = 0, complexity = [], patterns = []\<rparr>,
      isGenerationMode = True, generationComplete = False, errorAlerts = [],
      cancelToken = None, tokens = [], console = [], generated = [], projects = [],
      typed = [], reports = [], ticks = 0\<rparr>"

subsection \<open>The client's request as the server answers it\<close>

text \<open>
  The JSON object of a reply as the client reads it, and \<open>response.ok\<close>, which holds for
  the status codes 200 to 299. Nested objects are opaque to the client code modelled here.
\<close>

definition reply_json :: "reply_body \<Rightarrow> body" where
  "reply_json rb key =
     (case rb of
        ErrorBody e \<Rightarrow> (if key = ''error'' then JStr e else JUndefined)
      | FailureBody e \<Rightarrow>
          (if key = ''error'' then JStr e
           else if key = ''success'' then JBool False else JUndefined)
      | AskBody a \<Rightarrow>
          (if key = ''response'' then JStr (response a)
           else if key = ''success'' then JBool (success a)
           else if key = ''apiUsed'' then JStr (apiUsed a)
           else if key = ''showBuildButton'' then
             (case showBuildButton a of Some b \<Rightarrow> JBool b | None \<Rightarrow> JUndefined)
           else if key = ''appPlan'' then
             (case appPlan a of Some _ \<Rightarrow> JObject | None \<Rightarrow> JNull)
           else if key = ''files'' then JObject
           else if key = ''projectSaved'' then JBool (projectSaved a)
           else JUndefined)
      | CreateBody c \<Rightarrow>
          (if key = ''success'' then JBool (created_success c)
           else if key = ''fileName'' then created_fileName c
           else if key = ''path'' then JStr (created_path c)
           else JUndefined)
      | ListBody l \<Rightarrow> (if key = ''files'' then JObject else JUndefined))"

definition as_fetched :: "http_response \<Rightarrow> fetch_result" where
  "as_fetched r = Replied (200 \<le> status r \<and> status r \<le> 299) (reply_json (reply r))"

text \<open>\<open>JSON.stringify({ prompt: userInput })\<close> as the server parses it.\<close>

definition prompt_only :: "string \<Rightarrow> body" where
  "prompt_only userInput key = (if key = ''prompt'' then JStr userInput else JUndefined)"

subsection \<open>What the steps of an attempt do to the token store\<close>

text \<open>
  Predicates used to state and prove the properties of an attempt. A world is quiet when
  Cancel is never pressed. Between two states of one attempt, the token store and the
  token the state refers to are either unchanged, or, in a world that is not quiet, the
  token referred to has been cancelled and the reference cleared. An outcome is logged
  when it left the alerts as they were and appended one chat message exactly if no
  exception escaped.
\<close>

definition quiet :: "world \<Rightarrow> bool" where
  "quiet w \<longleftrightarrow> (\<forall>k. \<not> click w k)"

definition cancels_own ::
  "bool \<Rightarrow> bool list \<times> nat option \<Rightarrow> bool list \<times> nat option \<Rightarrow> bool" where
  "cancels_own still before after \<longleftrightarrow>
     after = before \<or>
     (\<not> still \<and> (\<exists>token. snd before = Some token \<and> after = (cancel token (fst before), None)))"

definition only_cancels :: "world \<Rightarrow> client \<Rightarrow> client \<Rightarrow> bool" where
  "only_cancels w s0 s \<longleftrightarrow>
     cancels_own (quiet w) (tokens s0, cancelToken s0) (tokens s, cancelToken s)"

definition outcome_logged :: "client \<Rightarrow> exn option \<times> client \<Rightarrow> bool" where
  "outcome_logged s r \<longleftrightarrow>
     errorAlerts (snd r) = errorAlerts s \<and>
     (case fst r of
        None \<Rightarrow> length (messages (snd r)) = Suc (length (messages s))
      | Some e \<Rightarrow> messages (snd r) = messages s)"

section \<open>Sample environments\<close>

text \<open>
  Concrete instances of the parameters, at which the theorems below are exercised: short
  template texts, a disk kept as a table from path to written value on which every
  operation succeeds, and the same disk refusing every write.
\<close>

definition sample_templates :: templates where
  "sample_templates =
     \<lparr>calc_html = ''<html>calc</html>'', calc_css = ''body {}'', calc_js = ''let x;'',
      calc_created = ''Calculator app created!'',
      todo_html = ''<html>todo</html>'', todo_css = ''body {}'', todo_js = ''let todos;'',
      todo_created = ''Todo List app created!''\<rparr>"

definition mem_env :: "(string \<times> jsval) list node_env" where
  "mem_env =
     \<lparr>cwd = ''/app'',
      path_join = (\<lambda>a v. case v of JStr b \<Rightarrow> Inr (a @ ''/'' @ b) | _ \<Rightarrow> Inl TypeError),
      path_dirname = (\<lambda>p. rev (tl (dropWhile (\<lambda>c. c \<noteq> CHR ''/'') (rev p)))),
      existsSync = (\<lambda>p d. True),
      mkdirSync = (\<lambda>p d. (None, d)),
      writeFileSync = (\<lambda>p v d. (None, AList.update p v d))\<rparr>"

definition readonly_env :: "(string \<times> jsval) list node_env" where
  "readonly_env = mem_env\<lparr>writeFileSync := (\<lambda>p v d. (Some IOError, d))\<rparr>"

definition fresh_server :: "(string \<times> jsval) list server" where
  "fresh_server = \<lparr>projectFiles = None, disk = []\<rparr>"

definition request :: "string \<Rightarrow> string \<Rightarrow> body" where
  "request p ty key =
     (if key = ''prompt'' then JStr p else if key = ''requestType'' then JStr ty else JUndefined)"

definition no_fields :: body where
  "no_fields key = JUndefined"

definition after_calculator :: "(string \<times> jsval) list server" where
  "after_calculator =
     snd (ask_handler mem_env sample_templates (request ''a calculator'' ''build'') fresh_server)"

definition create_request :: "string \<Rightarrow> string \<Rightarrow> body" where
  "create_request name body key =
     (if key = ''fileName'' then JStr name else if key = ''content'' then JStr body else JUndefined)"

definition sample_dir :: fs_node where
  "sample_dir =
     Dir [(''a.html'', File (Some ''x'')),
          (''.git'', Broken),
          (''b.css'', File (Some ''y'')),
          (''secret.txt'', File None),
          (''sub'', Dir [(''c.JS'', File (Some ''z'')), (''.env'', File (Some ''k''))]),
          (''pipe'', Other)]"

definition quiet_world :: world where
  "quiet_world =
     \<lparr>click = (\<lambda>k. False), half_up = (\<lambda>i n. True), fetch = (\<lambda>endpoint prompt. Rejected),
      generateLocalCode = (\<lambda>prompt. []), save_ok = True\<rparr>"

text \<open>
  A server whose answer holds a fenced block, and a user who presses Cancel during the
  \<open>k\<close>-th \<open>await\<close> of the attempt. The \<open>await\<close>s 0, 1 and 2 are the delays of the
  three stages, 3 is the request and 4 the reading of its body.
\<close>

definition fenced_reply :: string where
  "fenced_reply = ''Here:'' @ [LF] @ fence @ [LF] @ ''<p>hi</p>'' @ [LF] @ fence"

definition cancel_during :: "nat \<Rightarrow> world" where
  "cancel_during k =
     \<lparr>click = (\<lambda>j. j = k), half_up = (\<lambda>i n. True),
      fetch = (\<lambda>endpoint prompt.
                 Replied True (\<lambda>key. if key = ''response'' then JStr fenced_reply else JUndefined)),
      generateLocalCode = (\<lambda>prompt. []), save_ok = True\<rparr>"

text \<open>A client whose requests are answered by \<open>/api/ask\<close> of a process that has just started.\<close>

definition served_world :: world where
  "served_world =
     quiet_world\<lparr>fetch := (\<lambda>endpoint prompt.
        as_fetched (fst (ask_handler mem_env sample_templates (prompt_only prompt) fresh_server)))\<rparr>"

text \<open>
  A body whose \<open>fileName\<close> is a number, a disk on which no directory exists and none can
  be made, the component after an attempt that was cancelled during its second stage, and
  the server of the fenced answer with a user who never presses Cancel.
\<close>

definition numbered_request :: body where
  "numbered_request key =
     (if key = ''fileName'' then JNum 5 else if key = ''content'' then JStr ''x'' else JUndefined)"

definition missing_dir_env :: "(string \<times> jsval) list node_env" where
  "missing_dir_env =
     mem_env\<lparr>existsSync := (\<lambda>p d. False), mkdirSync := (\<lambda>p d. (Some IOError, d))\<rparr>"

definition after_cancelled :: client where
  "after_cancelled = handleSubmit (cancel_during 1) (Some ''make a page'') (initial_client ''Hey!'')"

definition fenced_world :: world where
  "fenced_world = (cancel_during 0)\<lparr>click := (\<lambda>k. False)\<rparr>"

section \<open>Properties of \<open>POST /api/ask\<close>\<close>

lemma includes_nonempty: "includes_str (toLowerCase p) (c # cs) \<Longrightarrow> p \<noteq> []"
  by (auto simp: toLowerCase_def)

text \<open>
  C9. A request to \<open>/api/ask\<close> whose body has no \<open>prompt\<close> field is answered with status
  400 and the body \<open>{error: "Prompt is required"}\<close>; the process is left as it was: no
  file is written and no bundle is stored.
\<close>

theorem ask_missing_prompt:
  "req ''prompt'' = JUndefined \<Longrightarrow>
   ask_handler env t req s = (\<lparr>status = 400, reply = ErrorBody ''Prompt is required''\<rparr>, s)"
  by (simp add: ask_handler_def)

theorem ask_missing_prompt_witness:
  "no_fields ''prompt'' = JUndefined \<and>
   ask_handler mem_env sample_templates no_fields fresh_server =
     (\<lparr>status = 400, reply = ErrorBody ''Prompt is required''\<rparr>, fresh_server)"
  using ask_missing_prompt [of no_fields mem_env sample_templates fresh_server]
  by (simp add: no_fields_def)

text \<open>
  C1, at the inputs where the code departs from it. A build request whose prompt contains
  \<open>todo\<close> and not \<open>calculator\<close> stores the todo bundle in the global slot and then fails:
  whatever the disk does, the answer is status 500 with \<open>success: false\<close> and carries no
  \<open>files\<close> field.
\<close>

theorem todo_build_fails:
  assumes "req ''prompt'' = JStr p"
    and "includes_str (toLowerCase p) ''todo''"
    and "\<not> includes_str (toLowerCase p) ''calculator''"
    and "req ''requestType'' = JStr ''build''"
  shows "fst (ask_handler env t req s) =
           \<lparr>status = 500, reply = FailureBody ''Internal server error''\<rparr> \<and>
         projectFiles (snd (ask_handler env t req s)) = Some (todo_files t)"
proof -
  have ne: "p \<noteq> []" using assms(2) by (rule includes_nonempty)
  have "\<exists>e s'. generate_response env t (toLowerCase p) (JStr ''build'') s = (Inl e, s') \<and>
          projectFiles s' = Some (todo_files t)"
    using assms(2,3)
    by (auto simp: generate_response_def build_todo_def Let_def
             split: sum.splits prod.splits option.splits)
  then show ?thesis
    using assms(1,4) ne
    by (auto simp: ask_handler_def ask_try_def Let_def)
qed

theorem todo_build_fails_witness:
  "fst (ask_handler mem_env sample_templates (request ''todo'' ''build'') fresh_server) =
     \<lparr>status = 500, reply = FailureBody ''Internal server error''\<rparr> \<and>
   projectFiles (snd (ask_handler mem_env sample_templates (request ''todo'' ''build'')
                        fresh_server)) = Some (todo_files sample_templates)"
  using todo_build_fails [of "request ''todo'' ''build''" "''todo''" mem_env sample_templates
                             fresh_server]
  by (simp add: request_def toLowerCase_def lower_char_def)

lemma ask_try_files:
  "ask_try env t prompt ty s = (Inr a, s') \<Longrightarrow> success a \<and> reply_files a = stored_bundle s'"
  by (auto simp: ask_try_def Let_def split: sum.splits prod.splits)

text \<open>
  C5. In every successful answer of \<open>/api/ask\<close> the field \<open>files\<close> is the bundle held by
  the global slot \<open>global.projectFiles\<close> when the answer is made, or the empty mapping if
  the slot was never assigned. Only a build request assigns the slot. In particular a
  prompt that matches no keyword leaves the process as it was and is answered with the
  bundle that an earlier build left in the slot.
\<close>

theorem ask_files_are_global:
  "(\<forall>a. reply (fst (ask_handler env t req s)) = AskBody a \<longrightarrow>
        success a \<and> reply_files a = stored_bundle (snd (ask_handler env t req s))) \<and>
   (req ''requestType'' \<noteq> JStr ''build'' \<longrightarrow> snd (ask_handler env t req s) = s) \<and>
   (req ''prompt'' = JStr p \<and> p \<noteq> [] \<and> \<not> includes_str (toLowerCase p) ''calculator'' \<and>
    \<not> includes_str (toLowerCase p) ''todo'' \<longrightarrow>
      snd (ask_handler env t req s) = s \<and>
      (\<exists>a. fst (ask_handler env t req s) = \<lparr>status = 200, reply = AskBody a\<rparr> \<and>
           reply_files a = stored_bundle s))"
proof (intro conjI allI impI)
  fix a assume "reply (fst (ask_handler env t req s)) = AskBody a"
  then show "success a" and "reply_files a = stored_bundle (snd (ask_handler env t req s))"
    by (auto simp: ask_handler_def Let_def split: if_splits prod.splits sum.splits
             dest: ask_try_files)
next
  assume "req ''requestType'' \<noteq> JStr ''build''"
  then show "snd (ask_handler env t req s) = s"
    by (auto simp: ask_handler_def ask_try_def generate_response_def Let_def
             split: sum.splits prod.splits)
next
  assume h: "req ''prompt'' = JStr p \<and> p \<noteq> [] \<and>
    \<not> includes_str (toLowerCase p) ''calculator'' \<and> \<not> includes_str (toLowerCase p) ''todo''"
  then show "snd (ask_handler env t req s) = s"
    by (auto simp: ask_handler_def ask_try_def generate_response_def Let_def)
  from h show "\<exists>a. fst (ask_handler env t req s) = \<lparr>status = 200, reply = AskBody a\<rparr> \<and>
           reply_files a = stored_bundle s"
    by (auto simp: ask_handler_def ask_try_def generate_response_def Let_def)
qed

lemma after_calculator_slot:
  "projectFiles after_calculator = Some (calculator_files sample_templates)"
  by (simp add: after_calculator_def ask_handler_def ask_try_def generate_response_def request_def
      build_calculator_def aiGenDir_def ensure_dir_def mem_env_def fresh_server_def Let_def
      calculator_files_def toLowerCase_def lower_char_def)

theorem ask_files_are_global_witness:
  "snd (ask_handler mem_env sample_templates (prompt_only ''hello'') after_calculator) =
     after_calculator \<and>
   (\<exists>a. fst (ask_handler mem_env sample_templates (prompt_only ''hello'') after_calculator) =
          \<lparr>status = 200, reply = AskBody a\<rparr> \<and>
        reply_files a = calculator_files sample_templates)"
  using ask_files_are_global [of mem_env sample_templates "prompt_only ''hello''"
                                 after_calculator "''hello''"]
  by (simp add: prompt_only_def toLowerCase_def lower_char_def stored_bundle_def
      after_calculator_slot)

section \<open>Properties of \<open>POST /api/files/create\<close>\<close>

text \<open>
  C8 as the claim states it fails, in both halves. A body that holds both fields, with the
  empty string as \<open>fileName\<close>, is answered with status 400. A body whose \<open>fileName\<close> is
  the number 5 is answered with status 500 on a disk where every operation succeeds:
  \<open>path.join\<close> throws on it before anything is written, and the disk is left empty.
\<close>

theorem create_status_counterexample:
  "create_request [] ''x'' ''fileName'' \<noteq> JUndefined \<and>
   create_request [] ''x'' ''content'' \<noteq> JUndefined \<and>
   status (fst (create_handler mem_env (create_request [] ''x'') [])) = 400 \<and>
   numbered_request ''fileName'' \<noteq> JUndefined \<and>
   numbered_request ''content'' \<noteq> JUndefined \<and>
   status (fst (create_handler mem_env numbered_request [])) = 500 \<and>
   snd (create_handler mem_env numbered_request []) = []"
  by (simp add: create_request_def numbered_request_def create_handler_def create_try_def
      aiGenDir_def ensure_dir_def mem_env_def)

lemma fst_ensure_dir:
  "fst (ensure_dir env dir d) = (if existsSync env dir d then None else fst (mkdirSync env dir d))"
  by (simp add: ensure_dir_def)

lemma snd_ensure_dir:
  "snd (ensure_dir env dir d) = (if existsSync env dir d then d else snd (mkdirSync env dir d))"
  by (simp add: ensure_dir_def)

lemma write_result:
  "(case r of (Some e, d') \<Rightarrow> f e d' | (None, d') \<Rightarrow> g d') =
     (case fst r of Some e \<Rightarrow> f e (snd r) | None \<Rightarrow> g (snd r))"
  by (cases r) (simp split: option.splits)

text \<open>
  C8, amended. The answer of \<open>/api/files/create\<close> has status 400 exactly when \<open>fileName\<close> is
  missing or falsy (the empty string, \<open>null\<close>, \<open>0\<close>, \<open>false\<close>) or \<open>content\<close> is
  \<open>undefined\<close>, and then the disk is left as it was. Otherwise it has status 500 exactly
  when a step of the \<open>try\<close> block throws. Step by step, with \<open>dir\<close> the output directory:
  the status is 500 when \<open>dir\<close> does not exist and \<open>mkdirSync\<close> throws on it; it is 500
  when \<open>path.join\<close> throws on \<open>fileName\<close>; and when \<open>dir\<close> exists or was made and the
  path is joined, it is 500 exactly when the parent directory of the path does not exist
  and \<open>mkdirSync\<close> throws on it, or \<open>writeFileSync\<close> throws. In every other case the
  answer is \<open>{success: true, fileName, path}\<close> with status 200, \<open>path\<close> being the joined
  path, and the disk is the one \<open>writeFileSync\<close> left.
\<close>

theorem create_handler_outcomes:
  "(status (fst (create_handler env req d)) = 400 \<longleftrightarrow>
      \<not> truthy (req ''fileName'') \<or> req ''content'' = JUndefined) \<and>
   (status (fst (create_handler env req d)) = 400 \<longrightarrow> snd (create_handler env req d) = d) \<and>
   (status (fst (create_handler env req d)) = 500 \<longleftrightarrow>
      truthy (req ''fileName'') \<and> req ''content'' \<noteq> JUndefined \<and>
      isl (fst (create_try env (req ''fileName'') (req ''content'') d))) \<and>
   (truthy (req ''fileName'') \<and> req ''content'' \<noteq> JUndefined \<and>
    fst (create_try env (req ''fileName'') (req ''content'') d) = Inr filePath \<longrightarrow>
      fst (create_handler env req d) =
        \<lparr>status = 200,
         reply = CreateBody \<lparr>created_success = True, created_fileName = req ''fileName'',
                             created_path = filePath\<rparr>\<rparr>) \<and>
   (aiGenDir env = Inr dir \<and> existsSync env dir d \<and>
    path_join env dir (req ''fileName'') = Inr filePath \<and>
    existsSync env (path_dirname env filePath) d \<longrightarrow>
      (isl (fst (create_try env (req ''fileName'') (req ''content'') d)) \<longleftrightarrow>
         fst (writeFileSync env filePath (req ''content'') d) \<noteq> None)) \<and>
   (path_join env (cwd env) (JStr ''ai-generated'') = Inr dir \<and>
    truthy (req ''fileName'') \<and> req ''content'' \<noteq> JUndefined \<longrightarrow>
      (\<not> existsSync env dir d \<and> fst (mkdirSync env dir d) \<noteq> None \<longrightarrow>
         status (fst (create_handler env req d)) = 500) \<and>
      (isl (path_join env dir (req ''fileName'')) \<longrightarrow>
         status (fst (create_handler env req d)) = 500) \<and>
      ((existsSync env dir d \<or> fst (mkdirSync env dir d) = None) \<and>
       d1 = (if existsSync env dir d then d else snd (mkdirSync env dir d)) \<and>
       path_join env dir (req ''fileName'') = Inr path \<and>
       parent = path_dirname env path \<and>
       d2 = (if existsSync env parent d1 then d1 else snd (mkdirSync env parent d1)) \<longrightarrow>
         (status (fst (create_handler env req d)) = 500 \<longleftrightarrow>
            (\<not> existsSync env parent d1 \<and> fst (mkdirSync env parent d1) \<noteq> None) \<or>
            fst (writeFileSync env path (req ''content'') d2) \<noteq> None) \<and>
         (status (fst (create_handler env req d)) \<noteq> 500 \<longrightarrow>
            create_handler env req d =
              (\<lparr>status = 200,
                reply = CreateBody \<lparr>created_success = True,
                                    created_fileName = req ''fileName'',
                                    created_path = path\<rparr>\<rparr>,
               snd (writeFileSync env path (req ''content'') d2)))))"
proof (intro conjI impI)
  show "status (fst (create_handler env req d)) = 400 \<longleftrightarrow>
      \<not> truthy (req ''fileName'') \<or> req ''content'' = JUndefined"
    by (auto simp: create_handler_def Let_def split: prod.splits sum.splits)
  show "status (fst (create_handler env req d)) = 500 \<longleftrightarrow>
      truthy (req ''fileName'') \<and> req ''content'' \<noteq> JUndefined \<and>
      isl (fst (create_try env (req ''fileName'') (req ''content'') d))"
    by (auto simp: create_handler_def Let_def split: prod.splits sum.splits)
next
  assume "status (fst (create_handler env req d)) = 400"
  then show "snd (create_handler env req d) = d"
    by (auto simp: create_handler_def Let_def split: prod.splits sum.splits if_splits)
next
  assume "truthy (req ''fileName'') \<and> req ''content'' \<noteq> JUndefined \<and>
    fst (create_try env (req ''fileName'') (req ''content'') d) = Inr filePath"
  then show "fst (create_handler env req d) =
        \<lparr>status = 200,
         reply = CreateBody \<lparr>created_success = True, created_fileName = req ''fileName'',
                             created_path = filePath\<rparr>\<rparr>"
    by (auto simp: create_handler_def Let_def split: prod.splits sum.splits)
next
  assume "aiGenDir env = Inr dir \<and> existsSync env dir d \<and>
    path_join env dir (req ''fileName'') = Inr filePath \<and>
    existsSync env (path_dirname env filePath) d"
  then show "isl (fst (create_try env (req ''fileName'') (req ''content'') d)) \<longleftrightarrow>
         fst (writeFileSync env filePath (req ''content'') d) \<noteq> None"
    by (auto simp: create_try_def ensure_dir_def split: prod.splits option.splits)
next
  assume h: "path_join env (cwd env) (JStr ''ai-generated'') = Inr dir \<and>
    truthy (req ''fileName'') \<and> req ''content'' \<noteq> JUndefined"
  {
    assume "\<not> existsSync env dir d \<and> fst (mkdirSync env dir d) \<noteq> None"
    with h show "status (fst (create_handler env req d)) = 500"
      by (auto simp: create_handler_def create_try_def aiGenDir_def write_result fst_ensure_dir snd_ensure_dir Let_def)
  }
  {
    assume "isl (path_join env dir (req ''fileName''))"
    with h show "status (fst (create_handler env req d)) = 500"
      by (cases "path_join env dir (req ''fileName'')")
         (auto simp: create_handler_def create_try_def aiGenDir_def write_result fst_ensure_dir
                     snd_ensure_dir Let_def split: option.splits)
  }
  assume k: "(existsSync env dir d \<or> fst (mkdirSync env dir d) = None) \<and>
       d1 = (if existsSync env dir d then d else snd (mkdirSync env dir d)) \<and>
       path_join env dir (req ''fileName'') = Inr path \<and>
       parent = path_dirname env path \<and>
       d2 = (if existsSync env parent d1 then d1 else snd (mkdirSync env parent d1))"
  have t: "create_try env (req ''fileName'') (req ''content'') d =
      (if \<not> existsSync env parent d1 \<and> fst (mkdirSync env parent d1) \<noteq> None
       then (Inl (the (fst (mkdirSync env parent d1))), d2)
       else (case fst (writeFileSync env path (req ''content'') d2) of
               Some e \<Rightarrow> (Inl e, snd (writeFileSync env path (req ''content'') d2))
             | None \<Rightarrow> (Inr path, snd (writeFileSync env path (req ''content'') d2))))"
    using h k
    by (auto simp: create_try_def aiGenDir_def write_result fst_ensure_dir snd_ensure_dir
             split: option.splits)
  show "status (fst (create_handler env req d)) = 500 \<longleftrightarrow>
            (\<not> existsSync env parent d1 \<and> fst (mkdirSync env parent d1) \<noteq> None) \<or>
            fst (writeFileSync env path (req ''content'') d2) \<noteq> None"
    using h by (auto simp: create_handler_def t write_result Let_def split: option.splits)
  assume "status (fst (create_handler env req d)) \<noteq> 500"
  then show "create_handler env req d =
              (\<lparr>status = 200,
                reply = CreateBody \<lparr>created_success = True,
                                    created_fileName = req ''fileName'',
                                    created_path = path\<rparr>\<rparr>,
               snd (writeFileSync env path (req ''content'') d2))"
    using h by (auto simp: create_handler_def t write_result Let_def split: option.splits if_splits)
qed

theorem create_handler_outcomes_witness:
  "status (fst (create_handler readonly_env (create_request ''a.txt'' ''hi'') [])) = 500 \<and>
   status (fst (create_handler missing_dir_env (create_request ''a.txt'' ''hi'') [])) = 500 \<and>
   create_handler mem_env (create_request ''a.txt'' ''hi'') [] =
     (\<lparr>status = 200,
       reply = CreateBody \<lparr>created_success = True, created_fileName = JStr ''a.txt'',
                           created_path = ''/app/ai-generated/a.txt''\<rparr>\<rparr>,
      [(''/app/ai-generated/a.txt'', JStr ''hi'')])"
proof -
  let ?req = "create_request ''a.txt'' ''hi''"
  let ?dir = "''/app/ai-generated''"
  let ?path = "''/app/ai-generated/a.txt''"
  have name: "?req ''fileName'' = JStr ''a.txt''" and body: "?req ''content'' = JStr ''hi''"
    by (simp_all add: create_request_def)
  have denied: "isl (fst (create_try readonly_env (JStr ''a.txt'') (JStr ''hi'') []))"
    by (simp add: create_try_def aiGenDir_def ensure_dir_def mem_env_def readonly_env_def)
  from create_handler_outcomes [of readonly_env ?req "[]"] denied
  have first: "status (fst (create_handler readonly_env ?req [])) = 500"
    by (simp add: name body)
  have root_missing:
    "path_join missing_dir_env (cwd missing_dir_env) (JStr ''ai-generated'') = Inr ?dir \<and>
     truthy (?req ''fileName'') \<and> ?req ''content'' \<noteq> JUndefined"
    by (simp add: missing_dir_env_def mem_env_def name body)
  have no_dir: "\<not> existsSync missing_dir_env ?dir [] \<and>
                fst (mkdirSync missing_dir_env ?dir []) \<noteq> None"
    by (simp add: missing_dir_env_def mem_env_def)
  note steps_missing =
    create_handler_outcomes [where env = missing_dir_env and req = ?req and d = "[]"
      and dir = ?dir, THEN conjunct2, THEN conjunct2, THEN conjunct2, THEN conjunct2,
      THEN conjunct2, THEN mp, OF root_missing]
  from steps_missing [THEN conjunct1, THEN mp, OF no_dir]
  have second: "status (fst (create_handler missing_dir_env ?req [])) = 500" .
  have root: "path_join mem_env (cwd mem_env) (JStr ''ai-generated'') = Inr ?dir \<and>
     truthy (?req ''fileName'') \<and> ?req ''content'' \<noteq> JUndefined"
    by (simp add: mem_env_def name body)
  have way: "(existsSync mem_env ?dir [] \<or> fst (mkdirSync mem_env ?dir []) = None) \<and>
       [] = (if existsSync mem_env ?dir [] then [] else snd (mkdirSync mem_env ?dir [])) \<and>
       path_join mem_env ?dir (?req ''fileName'') = Inr ?path \<and>
       ?dir = path_dirname mem_env ?path \<and>
       [] = (if existsSync mem_env ?dir [] then [] else snd (mkdirSync mem_env ?dir []))"
    by (simp add: mem_env_def name)
  note steps =
    create_handler_outcomes [where env = mem_env and req = ?req and d = "[]"
      and dir = ?dir and ?d1.0 = "[]" and path = ?path and parent = ?dir and ?d2.0 = "[]",
      THEN conjunct2, THEN conjunct2, THEN conjunct2, THEN conjunct2,
      THEN conjunct2, THEN mp, OF root, THEN conjunct2, THEN conjunct2, THEN mp, OF way]
  have writes: "fst (writeFileSync mem_env ?path (?req ''content'') []) = None"
    "existsSync mem_env ?dir []"
    "snd (writeFileSync mem_env ?path (?req ''content'') []) = [(?path, JStr ''hi'')]"
    by (simp_all add: mem_env_def body)
  from steps [THEN conjunct1] writes
  have "status (fst (create_handler mem_env ?req [])) \<noteq> 500" by simp
  with steps [THEN conjunct2] writes
  have third: "create_handler mem_env ?req [] =
     (\<lparr>status = 200,
       reply = CreateBody \<lparr>created_success = True, created_fileName = JStr ''a.txt'',
                           created_path = ?path\<rparr>\<rparr>,
      [(?path, JStr ''hi'')])"
    by (simp add: name)
  from first second third show ?thesis by simp
qed

section \<open>Properties of \<open>GET /api/files/list\<close>\<close>

lemma set_update_subset: "set (AList.update k v al) \<subseteq> insert (k, v) (set al)"
  by (induction al) auto

lemma scan_subset:
  "scanDirectory es rel acc = Inr files \<Longrightarrow> set files \<subseteq> set acc \<union> set (readable_files es rel)"
proof (induction es rel acc arbitrary: files rule: scanDirectory.induct)
  case (1 relativePath files0)
  then show ?case by simp
next
  case (2 item node items relativePath files0)
  show ?case
  proof (cases "starts_with item ''.''")
    case True
    with "2.IH"(1) "2.prems" show ?thesis by auto
  next
    case False
    note visible = this
    show ?thesis
    proof (cases node)
      case (File c)
      show ?thesis
      proof (cases c)
        case None
        with "2.IH"(2) "2.prems" visible File show ?thesis by auto
      next
        case (Some body)
        with "2.IH"(3) "2.prems" visible File
        have "set files \<subseteq> set (AList.update (relativeFilePath relativePath item)
                  \<lparr>listed_content = body, listed_type = file_type item\<rparr> files0) \<union>
                set (readable_files items relativePath)"
          by auto
        with set_update_subset show ?thesis using visible File Some by fastforce
      qed
    next
      case (Dir entries)
      with "2.prems" visible obtain mid where
        m1: "scanDirectory entries (relativeFilePath relativePath item) files0 = Inr mid" and
        m2: "scanDirectory items relativePath mid = Inr files"
        by (auto split: sum.splits)
      from "2.IH"(4)[OF visible Dir m1] have "set mid \<subseteq> set files0 \<union>
          set (readable_files entries (relativeFilePath relativePath item))" .
      moreover from "2.IH"(5)[OF visible Dir m1 m2] have "set files \<subseteq> set mid \<union>
          set (readable_files items relativePath)" .
      ultimately show ?thesis using visible Dir by auto
    next
      case LockedDir
      with "2.prems" visible show ?thesis by auto
    next
      case Other
      with "2.IH"(6) "2.prems" visible show ?thesis by auto
    next
      case Broken
      with "2.prems" visible show ?thesis by auto
    qed
  qed
qed

lemma scan_prune: "scanDirectory (prune es) rel acc = scanDirectory es rel acc"
proof (induction es rel acc rule: scanDirectory.induct)
  case (1 relativePath files0)
  then show ?case by simp
next
  case (2 item node items relativePath files0)
  show ?case
  proof (cases "starts_with item ''.''")
    case True
    with "2.IH"(1) show ?thesis by simp
  next
    case False
    note visible = this
    show ?thesis
    proof (cases node)
      case (File c)
      with "2.IH"(2,3) visible show ?thesis by (cases c) auto
    next
      case (Dir entries)
      show ?thesis
      proof (cases "scanDirectory entries (relativeFilePath relativePath item) files0")
        case (Inl e)
        with "2.IH"(4)[OF visible Dir] visible Dir show ?thesis by simp
      next
        case (Inr mid)
        with "2.IH"(4)[OF visible Dir] "2.IH"(5)[OF visible Dir Inr] visible Dir
        show ?thesis by simp
      qed
    next
      case LockedDir
      with visible show ?thesis by simp
    next
      case Other
      with "2.IH"(6) visible show ?thesis by simp
    next
      case Broken
      with visible show ?thesis by simp
    qed
  qed
qed

text \<open>
  C7. Whatever the state of the output directory, the listing endpoint answers with status
  200 and a mapping \<open>{files}\<close>, never with an error. A missing directory and an empty one
  give the empty mapping. Every listed entry is a readable file reached through names that
  do not begin with a dot, under its relative path with its text and type. An entry whose
  name begins with a dot has no effect on the answer, whatever it is, and neither has a
  file that cannot be read: the answer is that of the directory without them.
\<close>

theorem listing_never_fails:
  "status (list_handler projectDir) = 200 \<and>
   (\<exists>files. reply (list_handler projectDir) = ListBody files) \<and>
   list_handler None = \<lparr>status = 200, reply = ListBody []\<rparr> \<and>
   list_handler (Some (Dir [])) = \<lparr>status = 200, reply = ListBody []\<rparr> \<and>
   (reply (list_handler (Some (Dir entries))) = ListBody files \<longrightarrow>
      set files \<subseteq> set (readable_files entries [])) \<and>
   (starts_with item ''.'' \<longrightarrow>
      list_handler (Some (Dir ((item, node) # entries))) = list_handler (Some (Dir entries))) \<and>
   list_handler (Some (Dir ((item, File None) # entries))) = list_handler (Some (Dir entries)) \<and>
   list_handler (Some (Dir (prune entries))) = list_handler (Some (Dir entries))"
proof (intro conjI impI)
  show "status (list_handler projectDir) = 200"
    by (simp add: list_handler_def split: option.splits fs_node.splits sum.splits)
  show "\<exists>files. reply (list_handler projectDir) = ListBody files"
    by (simp add: list_handler_def split: option.splits fs_node.splits sum.splits)
  show "list_handler None = \<lparr>status = 200, reply = ListBody []\<rparr>"
    by (simp add: list_handler_def)
  show "list_handler (Some (Dir [])) = \<lparr>status = 200, reply = ListBody []\<rparr>"
    by (simp add: list_handler_def)
  show "list_handler (Some (Dir ((item, File None) # entries))) = list_handler (Some (Dir entries))"
    by (simp add: list_handler_def)
  show "list_handler (Some (Dir (prune entries))) = list_handler (Some (Dir entries))"
    by (simp add: list_handler_def scan_prune)
next
  assume "reply (list_handler (Some (Dir entries))) = ListBody files"
  then show "set files \<subseteq> set (readable_files entries [])"
    using scan_subset [of entries "[]" "[]"]
    by (auto simp: list_handler_def split: sum.splits)
next
  assume "starts_with item ''.''"
  then show "list_handler (Some (Dir ((item, node) # entries))) = list_handler (Some (Dir entries))"
    by (simp add: list_handler_def)
qed

theorem listing_never_fails_witness:
  "list_handler (Some sample_dir) =
     \<lparr>status = 200,
      reply = ListBody [(''a.html'', \<lparr>listed_content = ''x'', listed_type = ''html''\<rparr>),
                        (''b.css'', \<lparr>listed_content = ''y'', listed_type = ''css''\<rparr>),
                        (''sub/c.JS'', \<lparr>listed_content = ''z'', listed_type = ''javascript''\<rparr>)]\<rparr> \<and>
   list_handler (Some (Dir ((''.git'', Broken) # []))) = \<lparr>status = 200, reply = ListBody []\<rparr>"
proof -
  have "list_handler (Some sample_dir) =
     \<lparr>status = 200,
      reply = ListBody [(''a.html'', \<lparr>listed_content = ''x'', listed_type = ''html''\<rparr>),
                        (''b.css'', \<lparr>listed_content = ''y'', listed_type = ''css''\<rparr>),
                        (''sub/c.JS'', \<lparr>listed_content = ''z'', listed_type = ''javascript''\<rparr>)]\<rparr>"
    by code_simp
  moreover have "starts_with ''.git'' ''.''" by simp
  ultimately show ?thesis
    using listing_never_fails [of None "[]" "[]" "''.git''" Broken]
    by simp
qed

section \<open>Properties of \<open>generateFileName\<close>\<close>

text \<open>
  Called with a language and an index, the function does derive the base name and the
  extension from the language, compared in lower case, and from the text of the block
  when the language is none of those it knows; the block at index 0 gets no suffix.
\<close>

lemma generateFileName_with_language:
  "(\<exists>suffix. generateFileName contents (JStr lang) (Some i) =
       Inr (fst (name_parts contents (toLowerCase lang)) @ suffix @ ''.'' @
            snd (name_parts contents (toLowerCase lang))) \<and>
       (i = 0 \<longrightarrow> suffix = [])) \<and>
   (l = ''html'' \<longrightarrow> name_parts contents l = (''index'', ''html'')) \<and>
   (l = ''css'' \<longrightarrow> name_parts contents l = (''styles'', ''css'')) \<and>
   (l = ''js'' \<or> l = ''javascript'' \<longrightarrow> name_parts contents l = (''script'', ''js'')) \<and>
   (l = ''ts'' \<or> l = ''typescript'' \<longrightarrow> name_parts contents l = (''app'', ''ts'')) \<and>
   (l = ''py'' \<or> l = ''python'' \<longrightarrow> name_parts contents l = (''main'', ''py'')) \<and>
   (l = ''json'' \<longrightarrow> name_parts contents l = (''package'', ''json'')) \<and>
   (l \<notin> set known_languages \<longrightarrow>
      name_parts contents l =
        (if includes_str contents ''<!DOCTYPE html>'' \<or> includes_str contents ''<html''
           then (''index'', ''html'')
         else if includes_str contents ''body {'' \<or> includes_str contents ''@media''
           then (''styles'', ''css'')
         else if includes_str contents ''function'' \<or> includes_str contents ''const '' \<or>
                 includes_str contents ''let ''
           then (''script'', ''js'')
         else (''file'', ''txt'')))"
proof (intro conjI impI)
  show "\<exists>suffix. generateFileName contents (JStr lang) (Some i) =
       Inr (fst (name_parts contents (toLowerCase lang)) @ suffix @ ''.'' @
            snd (name_parts contents (toLowerCase lang))) \<and>
       (i = 0 \<longrightarrow> suffix = [])"
    by (cases "name_parts contents (toLowerCase lang)") (auto simp: generateFileName_def)
qed (auto simp: name_parts_def known_languages_def)

text \<open>
  C6, at the inputs where the code departs from it. Every call the component makes is
  \<open>generateFileName(code, i)\<close>: the loop counter stands where the language is expected,
  \<open>language.toLowerCase()\<close> throws, and no name is derived at all. So when the server
  answers with a code block and nobody cancels, the attempt creates and types no file and
  only logs that the generation failed. And where a language is passed, the suffix
  follows the position of the block in the answer, not the earlier uses of the base name:
  a first style sheet at index 1 is named \<open>styles2.css\<close>.
\<close>

theorem generateFileName_loses_language:
  "generateFileName contents (JNum (int i)) None = Inl TypeError \<and>
   generateFileName ''body {}'' (JStr ''css'') (Some 1) = Inr ''styles2.css'' \<and>
   generated (handleSubmit fenced_world (Some ''make a page'') (initial_client ''Hey!'')) = [] \<and>
   typed (handleSubmit fenced_world (Some ''make a page'') (initial_client ''Hey!'')) = [] \<and>
   console (handleSubmit fenced_world (Some ''make a page'') (initial_client ''Hey!'')) =
     [FailedToGenerate]"
proof -
  have "generateFileName contents (JNum (int i)) None = Inl TypeError"
    by (simp add: generateFileName_def)
  moreover have "generateFileName ''body {}'' (JStr ''css'') (Some 1) = Inr ''styles2.css''"
    by code_simp
  moreover have
    "generated (handleSubmit fenced_world (Some ''make a page'') (initial_client ''Hey!'')) = []"
    "typed (handleSubmit fenced_world (Some ''make a page'') (initial_client ''Hey!'')) = []"
    "console (handleSubmit fenced_world (Some ''make a page'') (initial_client ''Hey!'')) =
       [FailedToGenerate]"
    by code_simp+
  ultimately show ?thesis by simp
qed

section \<open>Properties of \<open>simulateTyping\<close>\<close>

lemma reports_handleCancel [simp]: "reports (handleCancel s) = reports s"
  by (simp add: handleCancel_def log_event_def split: option.splits)

lemma reports_pause [simp]: "reports (pause w s) = reports s"
  by (simp add: pause_def Let_def)

lemma reports_typing_loop:
  "reports (typing_loop w ls i n cur s) =
     reports s @ map (\<lambda>k. round_percent (half_up w) k n) [i..<i + length ls]"
proof (induction ls arbitrary: i cur s)
  case Nil
  then show ?case by simp
next
  case (Cons l ls)
  have "[i..<i + length (l # ls)] = i # [Suc i..<Suc i + length ls]"
    by (simp add: upt_conv_Cons del: upt_Suc)
  with Cons.IH [of "Suc i"] show ?case by (simp add: Let_def del: upt_Suc)
qed

lemma reports_simulateTyping:
  "reports (simulateTyping w code name lang s) =
     reports s @ map (\<lambda>k. round_percent (half_up w) k (length (split_lines code)))
                   [0..<length (split_lines code)] @ [100]"
  by (simp add: simulateTyping_def Let_def reports_typing_loop)

lemma split_lines_nonempty: "split_lines s \<noteq> []"
  by (induction s) (auto split: list.splits)

lemma split_lines_feeds: "length (split_lines (replicate k LF)) = Suc k"
  by (induction k) (auto simp: LF_def)

lemma round_percent_mono:
  assumes "i \<le> j" and "0 < n"
  shows "round_percent h i n \<le> round_percent h j n"
proof (cases "i = j")
  case True
  then show ?thesis by simp
next
  case False
  with assms have lt: "i < j" by simp
  let ?x = "200 * i + n" and ?y = "200 * j + n" and ?d = "2 * n"
  have xy: "?x < ?y" using lt by simp
  have le: "?x div ?d \<le> ?y div ?d" using xy by (simp add: div_le_mono)
  have up: "round_percent h i n \<le> ?x div ?d" by (simp add: round_percent_def Let_def)
  show ?thesis
  proof (cases "?y mod ?d = 0 \<and> \<not> h j n")
    case False
    then have "round_percent h j n = ?y div ?d" by (auto simp: round_percent_def Let_def)
    with up le show ?thesis by simp
  next
    case True
    then have r: "round_percent h j n = ?y div ?d - 1" by (simp add: round_percent_def Let_def)
    from True have "?y = ?d * (?y div ?d)" by (metis mult_div_mod_eq add.right_neutral)
    with xy have "?x < ?d * (?y div ?d)" by simp
    then have "?x div ?d < ?y div ?d"
      using assms(2) by (simp add: div_less_iff_less_mult mult.commute)
    with up r show ?thesis by simp
  qed
qed

lemma round_percent_below:
  assumes "200 * i + n < 200 * n"
  shows "round_percent h i n < 100"
proof -
  have "0 < n" using assms by (cases n) auto
  then have "(200 * i + n) div (2 * n) < 100"
    using assms by (simp add: div_less_iff_less_mult)
  moreover have "round_percent h i n \<le> (200 * i + n) div (2 * n)"
    by (simp add: round_percent_def Let_def)
  ultimately show ?thesis by simp
qed

lemma round_percent_le:
  assumes "i < n"
  shows "round_percent h i n \<le> 100"
proof -
  have "200 * i + n < 202 * n" using assms by simp
  then have "(200 * i + n) div (2 * n) < 101"
    using assms by (simp add: div_less_iff_less_mult)
  moreover have "round_percent h i n \<le> (200 * i + n) div (2 * n)"
    by (simp add: round_percent_def Let_def)
  ultimately show ?thesis by simp
qed


lemma sorted_percent: "0 < n \<Longrightarrow> sorted (map (\<lambda>k. round_percent h k n) [0..<n])"
proof -
  assume pos: "0 < n"
  have "sorted_wrt (\<le>) [0..<n]" by simp
  then have "sorted_wrt (\<lambda>x y. round_percent h x n \<le> round_percent h y n) [0..<n]"
    by (rule sorted_wrt_mono_rel [rotated]) (simp add: round_percent_mono pos)
  then show ?thesis by (simp add: sorted_map)
qed

text \<open>
  C3 as the claim states it fails: in a file of 1000 lines the report for line 999 is
  already 100, since \<open>Math.round(99.8)\<close> is 100.
\<close>

theorem typing_progress_counterexample:
  "length (split_lines (replicate 999 LF)) = 1000 \<and>
   reports (simulateTyping quiet_world (replicate 999 LF) ''index.html'' ''html''
              (initial_client [])) ! 998 = 100"
proof -
  have len: "length (split_lines (replicate 999 LF)) = 1000"
    by (simp add: split_lines_feeds)
  have "round_percent (half_up quiet_world) 998 1000 = 100"
    by (simp add: round_percent_def)
  then show ?thesis
    by (simp add: reports_simulateTyping len initial_client_def nth_append del: upt_Suc)
qed

text \<open>
  C3, amended. The values that one call of \<open>simulateTyping\<close> assigns to the progress, one
  per line and one at completion, are non-decreasing and end with 100. In a file of fewer
  than 400 lines no report before that of the final line is 100, and in a file of fewer
  than 200 lines only the report at completion is. This holds however the ties of
  \<open>Math.round\<close> fall and whenever Cancel is pressed.
\<close>

theorem typing_progress:
  "let n = length (split_lines code);
       r = drop (length (reports s)) (reports (simulateTyping w code name lang s))
   in length r = Suc n \<and> sorted r \<and> last r = 100 \<and>
      (n < 400 \<longrightarrow> (\<forall>j. Suc j < n \<longrightarrow> r ! j < 100)) \<and>
      (n < 200 \<longrightarrow> (\<forall>j<n. r ! j < 100))"
proof -
  define n where "n = length (split_lines code)"
  define f where "f = (\<lambda>k. round_percent (half_up w) k n)"
  define r where "r = drop (length (reports s)) (reports (simulateTyping w code name lang s))"
  have r: "r = map f [0..<n] @ [100]"
    by (simp add: r_def reports_simulateTyping n_def f_def)
  have pos: "0 < n" using split_lines_nonempty [of code] by (simp add: n_def)
  have len: "length r = Suc n" by (simp add: r)
  have "\<forall>x\<in>set (map f [0..<n]). x \<le> 100" by (auto simp: f_def round_percent_le)
  then have srt: "sorted r"
    using sorted_percent [OF pos, of "half_up w"] by (simp add: r f_def sorted_append)
  have lst: "last r = 100" by (simp add: r)
  have nth: "r ! j = f j" if "j < n" for j using that by (simp add: r nth_append)
  have a: "r ! j < 100" if "n < 400" "Suc j < n" for j
  proof -
    have "200 * j + n < 200 * n" using that by simp
    then show ?thesis using that nth [of j] by (simp add: f_def round_percent_below)
  qed
  have b: "r ! j < 100" if "n < 200" "j < n" for j
  proof -
    have "200 * j + n < 200 * n" using that by simp
    then show ?thesis using that nth [of j] by (simp add: f_def round_percent_below)
  qed
  from len srt lst a b show ?thesis
    unfolding Let_def n_def [symmetric] r_def [symmetric] by blast
qed

theorem typing_progress_witness:
  "sorted (reports (simulateTyping quiet_world ''ab'' ''index.html'' ''html'' (initial_client []))) \<and>
   last (reports (simulateTyping quiet_world ''ab'' ''index.html'' ''html'' (initial_client []))) = 100 \<and>
   reports (simulateTyping quiet_world ''ab'' ''index.html'' ''html'' (initial_client [])) ! 0 < 100"
  using typing_progress [of "''ab''" "initial_client []" quiet_world "''index.html''" "''html''"]
  by (simp add: Let_def initial_client_def)

section \<open>Properties of the cancel token\<close>

lemma oc_log [simp]: "only_cancels w s0 (log_event e s) = only_cancels w s0 s"
  by (simp add: only_cancels_def log_event_def)

lemma oc_handleCancel:
  assumes "only_cancels w s0 s" and "\<not> quiet w"
  shows "only_cancels w s0 (handleCancel s)"
proof (cases "cancelToken s")
  case None
  then have "tokens (handleCancel s) = tokens s" "cancelToken (handleCancel s) = cancelToken s"
    by (simp_all add: handleCancel_def log_event_def)
  with assms show ?thesis by (simp add: only_cancels_def)
next
  case (Some token)
  with assms have same: "tokens s = tokens s0" "cancelToken s0 = Some token"
    by (auto simp: only_cancels_def cancels_own_def)
  from Some have "tokens (handleCancel s) = cancel token (tokens s)"
    "cancelToken (handleCancel s) = None"
    by (simp_all add: handleCancel_def log_event_def)
  with same assms(2) show ?thesis by (simp add: only_cancels_def cancels_own_def)
qed

lemma oc_pause: "only_cancels w s0 s \<Longrightarrow> only_cancels w s0 (pause w s)"
proof -
  assume a: "only_cancels w s0 s"
  then have t: "only_cancels w s0 (s\<lparr>ticks := ticks s + 1\<rparr>)" by (simp add: only_cancels_def)
  show ?thesis
  proof (cases "click w (ticks s) \<and> isLoading s \<and> currentStage s \<noteq> []")
    case True
    then have "\<not> quiet w" by (auto simp: quiet_def)
    with t True show ?thesis by (simp add: pause_def Let_def oc_handleCancel)
  next
    case False
    with t show ?thesis by (auto simp: pause_def Let_def)
  qed
qed

lemma oc_typing_loop:
  "only_cancels w s0 s \<Longrightarrow> only_cancels w s0 (typing_loop w ls i n cur s)"
proof (induction ls arbitrary: i cur s)
  case Nil
  then show ?case by simp
next
  case (Cons l ls)
  let ?s1 = "s\<lparr>liveCoding := (liveCoding s)\<lparr>lc_content := cur @ l @ [LF],
                   progress := round_percent (half_up w) i n\<rparr>,
                 reports := reports s @ [round_percent (half_up w) i n]\<rparr>"
  from Cons.prems have "only_cancels w s0 ?s1" by (simp add: only_cancels_def)
  then have "only_cancels w s0 (pause w ?s1)" by (rule oc_pause)
  then show ?case using Cons.IH by (simp add: Let_def)
qed

lemma oc_simulateTyping:
  "only_cancels w s0 s \<Longrightarrow> only_cancels w s0 (simulateTyping w code name lang s)"
proof -
  assume a: "only_cancels w s0 s"
  let ?lines = "split_lines code"
  let ?s1 = "s\<lparr>liveCoding := (liveCoding s)
                   \<lparr>fileName := name, lc_language := lang,
                    complexity :=
                      (if length ?lines > 50 then ''complex''
                       else if length ?lines > 25 then ''medium'' else ''simple''),
                    patterns := [''AI-Powered Generation'', ''Production Ready'',
                                 ''Modern Architecture''],
                    isActive := True\<rparr>,
                 typed := typed s @ [name]\<rparr>"
  from a have "only_cancels w s0 ?s1" by (simp add: only_cancels_def)
  then have "only_cancels w s0 (typing_loop w ?lines 0 (length ?lines) [] ?s1)"
    by (rule oc_typing_loop)
  then show ?thesis by (simp add: simulateTyping_def Let_def only_cancels_def)
qed

lemma oc_generation_loop:
  "only_cancels w s0 s \<Longrightarrow>
   only_cancels w s0 (snd (generation_loop w token announce blocks i created s))"
proof (induction blocks arbitrary: i created s)
  case Nil
  then show ?case by simp
next
  case (Cons block blocks)
  show ?case
  proof (cases "cancelled token (tokens s)")
    case True
    with Cons.prems show ?thesis by simp
  next
    case False
    show ?thesis
    proof (cases "generateFileName (block_code block) (JNum (int i)) None")
      case (Inl e)
      with False Cons.prems show ?thesis by (simp add: Let_def)
    next
      case (Inr name)
      let ?s1 = "s\<lparr>generated := generated s @ [(name, block_code block, block_language block)]\<rparr>"
      let ?s2 = "simulateTyping w (block_code block) name (block_language block) ?s1"
      let ?s3 = "if announce then log_event (CreatedFile name) ?s2 else ?s2"
      from Cons.prems have "only_cancels w s0 ?s1" by (simp add: only_cancels_def)
      then have "only_cancels w s0 ?s2" by (rule oc_simulateTyping)
      then have "only_cancels w s0 ?s3" by simp
      then have "only_cancels w s0 (snd (generation_loop w token announce blocks (i + 1)
                    (created @ [name]) ?s3))" by (rule Cons.IH)
      with False Inr show ?thesis by (simp add: Let_def)
    qed
  qed
qed

lemma oc_saveProject:
  "only_cancels w s0 s \<Longrightarrow> only_cancels w s0 (saveProject w prompt created blocks s)"
proof -
  assume "only_cancels w s0 s"
  then have "only_cancels w s0 (pause w s)" by (rule oc_pause)
  then show ?thesis by (simp add: saveProject_def Let_def only_cancels_def log_event_def)
qed

lemma oc_generation_try:
  assumes "only_cancels w s0 s"
  shows "only_cancels w s0 (snd (generation_try w userInput token s))"
proof -
  have p1: "only_cancels w s0 (pause w s)" using assms by (rule oc_pause)
  then have p2: "only_cancels w s0 (pause w (pause w s))" by (rule oc_pause)
  have loop: "only_cancels w s0 (snd (generation_loop w token True blocks 0 [] (pause w (pause w s))))"
    for blocks using p2 by (rule oc_generation_loop)
  show ?thesis
  proof (cases "fetch w ''/api/ask'' userInput")
    case Rejected
    with p1 show ?thesis by (simp add: generation_try_def Let_def)
  next
    case (Replied ok data)
    show ?thesis
    proof (cases ok)
      case False
      with Replied p1 show ?thesis by (simp add: generation_try_def Let_def)
    next
      case True
      show ?thesis
      proof (cases "data ''response''")
        case (JStr aiResponse)
        let ?blocks = "match_code_blocks aiResponse"
        obtain res s3 where g: "generation_loop w token True ?blocks 0 [] (pause w (pause w s)) = (res, s3)"
          by (cases "generation_loop w token True ?blocks 0 [] (pause w (pause w s))")
        with loop [of ?blocks] have s3: "only_cancels w s0 s3" by simp
        show ?thesis
        proof (cases res)
          case (Inl e)
          with g s3 Replied True JStr show ?thesis by (simp add: generation_try_def Let_def)
        next
          case (Inr created)
          have "only_cancels w s0 (saveProject w userInput created ?blocks s3)"
            using s3 by (rule oc_saveProject)
          with g s3 Replied True JStr Inr show ?thesis
            by (simp add: generation_try_def Let_def only_cancels_def log_event_def)
        qed
      qed (use Replied True p2 in \<open>simp_all add: generation_try_def Let_def\<close>)
    qed
  qed
qed

lemma oc_generation_fallback:
  assumes "only_cancels w s0 s"
  shows "only_cancels w s0 (snd (generation_fallback w userInput token s))"
proof -
  let ?blocks = "match_code_blocks (generateLocalCode w userInput)"
  have "only_cancels w s0 (log_event FailedToGenerate s)" using assms by simp
  then have "only_cancels w s0 (snd (generation_loop w token False ?blocks 0 []
                                     (log_event FailedToGenerate s)))"
    by (rule oc_generation_loop)
  then show ?thesis
    by (auto simp: generation_fallback_def Let_def only_cancels_def split: prod.splits sum.splits)
qed

lemma oc_stage: "only_cancels w s0 s \<Longrightarrow> only_cancels w s0 (pause w (s\<lparr>currentStage := st\<rparr>))"
proof -
  assume "only_cancels w s0 s"
  then have "only_cancels w s0 (s\<lparr>currentStage := st\<rparr>)" by (simp add: only_cancels_def)
  then show ?thesis by (rule oc_pause)
qed

lemma oc_handleFileGeneration:
  assumes "only_cancels w s0 s"
  shows "only_cancels w s0 (snd (handleFileGeneration w userInput token s))"
proof -
  let ?s0 = "s\<lparr>currentStage := ''analysis'',
                 liveCoding := (liveCoding s)
                   \<lparr>isActive := True, fileName := ''Loading...'', lc_content := []\<rparr>\<rparr>"
  let ?s1 = "pause w ?s0"
  let ?s2 = "pause w (?s1\<lparr>currentStage := ''architecture''\<rparr>)"
  let ?s3 = "pause w (?s2\<lparr>currentStage := ''structure''\<rparr>)"
  from assms have "only_cancels w s0 ?s0" by (simp add: only_cancels_def)
  then have i1: "only_cancels w s0 ?s1" by (rule oc_pause)
  then have i2: "only_cancels w s0 ?s2" by (rule oc_stage)
  then have i3: "only_cancels w s0 ?s3" by (rule oc_stage)
  obtain e4 s4 where t: "generation_try w userInput token ?s3 = (e4, s4)"
    by (cases "generation_try w userInput token ?s3")
  with oc_generation_try [OF i3, of userInput token] have i4: "only_cancels w s0 s4" by simp
  obtain e5 s5 where f: "generation_fallback w userInput token s4 = (e5, s5)"
    by (cases "generation_fallback w userInput token s4")
  with oc_generation_fallback [OF i4, of userInput token] have i5: "only_cancels w s0 s5" by simp
  have c4: "only_cancels w s0 (s4\<lparr>currentStage := ''complete''\<rparr>)"
    using i4 by (simp add: only_cancels_def)
  have c5: "only_cancels w s0 (s5\<lparr>currentStage := ''complete''\<rparr>)"
    using i5 by (simp add: only_cancels_def)
  show ?thesis
    using i1 i2 i3 i4 i5 c4 c5 t f
    by (auto simp: handleFileGeneration_def Let_def split: option.splits)
qed

lemma oc_plain_request:
  assumes "only_cancels w s0 s"
  shows "only_cancels w s0 (snd (plain_request w userInput s))"
proof -
  have p1: "only_cancels w s0 (pause w s)" using assms by (rule oc_pause)
  then have p2: "only_cancels w s0 (pause w (pause w s))" by (rule oc_pause)
  from p1 p2 show ?thesis
    by (auto simp: plain_request_def Let_def split: fetch_result.splits)
qed

lemma only_cancels_refl: "only_cancels w s s"
  by (simp add: only_cancels_def cancels_own_def)

lemma cancelled_cancel: "cancelled t store \<Longrightarrow> cancelled t (cancel token store)"
  by (auto simp: cancelled_def cancel_def nth_list_update)

lemma only_cancels_keeps:
  "only_cancels w s0 s \<Longrightarrow> cancelled t (tokens s0) \<Longrightarrow> cancelled t (tokens s)"
  by (auto simp: only_cancels_def cancels_own_def cancelled_cancel)

lemma only_cancels_quiet:
  "only_cancels w s0 s \<Longrightarrow> quiet w \<Longrightarrow> tokens s = tokens s0"
  by (auto simp: only_cancels_def cancels_own_def)

lemma only_cancels_append:
  assumes "only_cancels w s0 s" and "tokens s0 = old @ [False]"
    and "cancelToken s0 = Some (length old)"
  shows "length (tokens s) = Suc (length old) \<and> take (length old) (tokens s) = old"
  using assms by (auto simp: only_cancels_def cancels_own_def cancel_def)

lemma tokens_settle: "tokens (settle_attempt outcome) = tokens (snd outcome)"
  by (cases "fst outcome") (simp_all add: settle_attempt_def log_event_def Let_def)

lemma handleAIResponse_unfold:
  "handleAIResponse w userInput s =
     settle_attempt
       (if isCodeGenerationRequest userInput \<and> isGenerationMode s
        then handleFileGeneration w userInput (length (tokens s))
               (s\<lparr>isLoading := True, currentStage := [],
                  liveCoding := (liveCoding s)\<lparr>isActive := False\<rparr>,
                  tokens := tokens s @ [False], cancelToken := Some (length (tokens s))\<rparr>)
        else plain_request w userInput
               (s\<lparr>isLoading := True, currentStage := [],
                  liveCoding := (liveCoding s)\<lparr>isActive := False\<rparr>,
                  tokens := tokens s @ [False], cancelToken := Some (length (tokens s))\<rparr>))"
  by (simp add: handleAIResponse_def createCancelToken_def Let_def)

lemma cancel_last: "cancel (length old) (old @ [False]) = old @ [True]"
  by (simp add: cancel_def)

lemma attempt_tokens:
  "tokens (handleAIResponse w userInput s) = tokens s @ [False] \<or>
   (\<not> quiet w \<and> tokens (handleAIResponse w userInput s) = tokens s @ [True])"
proof -
  let ?s1 = "s\<lparr>isLoading := True, currentStage := [],
                liveCoding := (liveCoding s)\<lparr>isActive := False\<rparr>,
                tokens := tokens s @ [False], cancelToken := Some (length (tokens s))\<rparr>"
  let ?out = "if isCodeGenerationRequest userInput \<and> isGenerationMode s
              then handleFileGeneration w userInput (length (tokens s)) ?s1
              else plain_request w userInput ?s1"
  have "only_cancels w ?s1 (snd ?out)"
    by (simp add: oc_handleFileGeneration oc_plain_request only_cancels_refl)
  then have "tokens (snd ?out) = tokens s @ [False] \<or>
             (\<not> quiet w \<and> tokens (snd ?out) = cancel (length (tokens s)) (tokens s @ [False]))"
    unfolding only_cancels_def cancels_own_def by auto
  moreover have "tokens (handleAIResponse w userInput s) = tokens (snd ?out)"
    by (simp add: handleAIResponse_unfold tokens_settle)
  ultimately show ?thesis by (simp add: cancel_last)
qed

lemma kept_messages:
  "messages (handleCancel s) = messages s \<and> errorAlerts (handleCancel s) = errorAlerts s"
  "messages (pause w s) = messages s \<and> errorAlerts (pause w s) = errorAlerts s"
  by (simp_all add: handleCancel_def pause_def log_event_def Let_def split: option.splits)

lemma kept_typing_loop:
  "messages (typing_loop w ls i n cur s) = messages s \<and>
   errorAlerts (typing_loop w ls i n cur s) = errorAlerts s"
  by (induction ls arbitrary: i cur s) (simp_all add: Let_def kept_messages)

lemma kept_simulateTyping:
  "messages (simulateTyping w code name lang s) = messages s \<and>
   errorAlerts (simulateTyping w code name lang s) = errorAlerts s"
  by (simp add: simulateTyping_def Let_def kept_typing_loop)

lemma kept_saveProject:
  "messages (saveProject w prompt created blocks s) = messages s \<and>
   errorAlerts (saveProject w prompt created blocks s) = errorAlerts s"
  by (simp add: saveProject_def Let_def log_event_def kept_messages)

lemma kept_generation_loop:
  "messages (snd (generation_loop w token announce blocks i created s)) = messages s \<and>
   errorAlerts (snd (generation_loop w token announce blocks i created s)) = errorAlerts s"
proof (induction blocks arbitrary: i created s)
  case Nil
  then show ?case by simp
next
  case (Cons block blocks)
  show ?case
    by (cases "generateFileName (block_code block) (JNum (int i)) None")
       (simp_all add: Let_def Cons.IH kept_simulateTyping log_event_def)
qed

lemma logged_generation_try: "outcome_logged s (generation_try w userInput token s)"
proof -
  have loop: "messages s3 = messages s \<and> errorAlerts s3 = errorAlerts s"
    if "generation_loop w token True blocks 0 [] (pause w (pause w s)) = (res, s3)"
    for blocks res s3
    using kept_generation_loop [of w token True blocks 0 "[]" "pause w (pause w s)"] that
    by (simp add: kept_messages)
  show ?thesis
    by (auto simp: outcome_logged_def generation_try_def Let_def kept_messages kept_saveProject
                   log_event_def
             split: fetch_result.splits jsval.splits prod.splits sum.splits dest: loop)
qed

lemma logged_generation_fallback: "outcome_logged s (generation_fallback w userInput token s)"
proof -
  have loop: "messages s1 = messages s \<and> errorAlerts s1 = errorAlerts s"
    if "generation_loop w token False blocks 0 [] (log_event FailedToGenerate s) = (res, s1)"
    for blocks res s1
    using kept_generation_loop [of w token False blocks 0 "[]" "log_event FailedToGenerate s"] that
    by (simp add: log_event_def)
  show ?thesis
    by (auto simp: outcome_logged_def generation_fallback_def Let_def
             split: prod.splits sum.splits dest: loop)
qed

lemma tokens_pause_quiet: "quiet w \<Longrightarrow> tokens (pause w s) = tokens s"
  by (simp add: pause_def Let_def quiet_def)

lemma logged_handleFileGeneration:
  assumes "quiet w" and "\<not> cancelled token (tokens s)"
  shows "outcome_logged s (handleFileGeneration w userInput token s)"
proof -
  let ?s1 = "pause w (s\<lparr>currentStage := ''analysis'',
                liveCoding := (liveCoding s)
                  \<lparr>isActive := True, fileName := ''Loading...'', lc_content := []\<rparr>\<rparr>)"
  let ?s2 = "pause w (?s1\<lparr>currentStage := ''architecture''\<rparr>)"
  let ?s3 = "pause w (?s2\<lparr>currentStage := ''structure''\<rparr>)"
  have same: "messages ?s3 = messages s" "errorAlerts ?s3 = errorAlerts s"
    by (simp_all add: kept_messages)
  have open_way: "\<not> cancelled token (tokens ?s1)" "\<not> cancelled token (tokens ?s2)"
    "\<not> cancelled token (tokens ?s3)"
    using assms by (simp_all add: tokens_pause_quiet)
  obtain e4 s4 where t: "generation_try w userInput token ?s3 = (e4, s4)"
    by (cases "generation_try w userInput token ?s3")
  obtain e5 s5 where f: "generation_fallback w userInput token s4 = (e5, s5)"
    by (cases "generation_fallback w userInput token s4")
  from logged_generation_try [of ?s3 w userInput token] t same
  have l4: "errorAlerts s4 = errorAlerts s"
    "e4 = None \<Longrightarrow> length (messages s4) = Suc (length (messages s))"
    "e4 \<noteq> None \<Longrightarrow> messages s4 = messages s"
    by (auto simp: outcome_logged_def)
  from logged_generation_fallback [of s4 w userInput token] f
  have l5: "errorAlerts s5 = errorAlerts s4"
    "e5 = None \<Longrightarrow> length (messages s5) = Suc (length (messages s4))"
    "e5 \<noteq> None \<Longrightarrow> messages s5 = messages s4"
    by (auto simp: outcome_logged_def)
  have "handleFileGeneration w userInput token s =
          (case e4 of None \<Rightarrow> (None, s4\<lparr>currentStage := ''complete''\<rparr>)
           | Some e \<Rightarrow> (case e5 of None \<Rightarrow> (None, s5\<lparr>currentStage := ''complete''\<rparr>)
                        | Some e' \<Rightarrow> (Some e', s5)))"
    unfolding handleFileGeneration_def Let_def
    using open_way t f by (simp split: option.splits)
  with l4 l5 show ?thesis
    by (auto simp: outcome_logged_def split: option.splits)
qed

lemma logged_attempt:
  assumes "quiet w" and "isCodeGenerationRequest userInput" and "isGenerationMode s"
  shows "length (messages (handleAIResponse w userInput s)) +
         length (errorAlerts (handleAIResponse w userInput s)) =
           Suc (length (messages s) + length (errorAlerts s))"
proof -
  let ?s1 = "s\<lparr>isLoading := True, currentStage := [],
                liveCoding := (liveCoding s)\<lparr>isActive := False\<rparr>,
                tokens := tokens s @ [False], cancelToken := Some (length (tokens s))\<rparr>"
  let ?out = "handleFileGeneration w userInput (length (tokens s)) ?s1"
  have "\<not> cancelled (length (tokens s)) (tokens ?s1)" by (simp add: cancelled_def)
  from logged_handleFileGeneration [OF assms(1) this, of userInput]
  have l: "outcome_logged ?s1 ?out" .
  have "handleAIResponse w userInput s = settle_attempt ?out"
    using assms by (simp add: handleAIResponse_unfold)
  with l show ?thesis
    by (cases "fst ?out")
       (auto simp: outcome_logged_def settle_attempt_def log_event_def Let_def)
qed

lemma cancelled_at_first_await:
  assumes "isCodeGenerationRequest userInput" and "isGenerationMode s" and "click w (ticks s)"
  shows "cancelled (length (tokens s)) (tokens (handleAIResponse w userInput s))"
proof -
  let ?s1 = "s\<lparr>isLoading := True, currentStage := [],
                liveCoding := (liveCoding s)\<lparr>isActive := False\<rparr>,
                tokens := tokens s @ [False], cancelToken := Some (length (tokens s))\<rparr>"
  let ?s0 = "?s1\<lparr>currentStage := ''analysis'',
                 liveCoding := (liveCoding ?s1)
                   \<lparr>isActive := True, fileName := ''Loading...'', lc_content := []\<rparr>\<rparr>"
  have c: "cancelled (length (tokens s)) (tokens (pause w ?s0))"
    using assms(3)
    by (simp add: pause_def handleCancel_def log_event_def Let_def cancel_last cancelled_def)
  then have "handleFileGeneration w userInput (length (tokens s)) ?s1 = (None, pause w ?s0)"
    by (simp add: handleFileGeneration_def Let_def)
  then have "tokens (handleAIResponse w userInput s) = tokens (pause w ?s0)"
    using assms(1,2) by (simp add: handleAIResponse_unfold tokens_settle)
  with c show ?thesis by simp
qed

lemma cancelled_snoc: "cancelled t store \<Longrightarrow> cancelled t (store @ [b])"
  by (simp add: cancelled_def nth_append)

lemma attempt_keeps:
  "cancelled t (tokens s) \<Longrightarrow> cancelled t (tokens (handleAIResponse w userInput s))"
  using attempt_tokens [of w userInput s] by (auto simp: cancelled_snoc)

lemma cancelled_step: "cancelled token store \<Longrightarrow> cancelled token (token_step op store)"
  by (cases op) (auto simp: cancelled_def createCancelToken_def cancel_def nth_append nth_list_update)

lemma cancelled_fold: "cancelled token store \<Longrightarrow> cancelled token (fold token_step ops store)"
  by (induction ops arbitrary: store) (auto intro: cancelled_step)

text \<open>
  C10. A token made by \<open>createCancelToken\<close> is not cancelled at first, and it is none of
  the tokens that exist. Once a token is cancelled it stays cancelled: under every
  sequence of creations and cancellations, and under every step of the component
  (\<open>handleCancel\<close>, an \<open>await\<close>, \<open>handleFileGeneration\<close>, the \<open>catch\<close> and \<open>finally\<close>
  blocks, a whole attempt, a submission). \<open>handleCancel\<close> does cancel the token the state
  refers to. Every attempt appends one uncancelled token to the store, leaves the earlier
  tokens as they were, and runs \<open>handleFileGeneration\<close> on the new token. That token ends
  cancelled when Cancel is pressed during the first \<open>await\<close> and uncancelled when Cancel
  is never pressed; in the latter case the attempt runs to its end whatever the earlier
  tokens are, appending one chat message or, if an exception escapes, one alert.
\<close>

theorem cancel_token_monotone:
  "\<not> cancelled (fst (createCancelToken store)) (snd (createCancelToken store)) \<and>
   (cancelled token store \<longrightarrow> cancelled token (fold token_step ops store)) \<and>
   \<not> fst (createCancelToken store) < length store \<and>
   length (tokens (handleAIResponse w userInput s)) = Suc (length (tokens s)) \<and>
   take (length (tokens s)) (tokens (handleAIResponse w userInput s)) = tokens s \<and>
   (cancelled token (tokens s) \<longrightarrow>
      cancelled token (tokens (handleCancel s)) \<and>
      cancelled token (tokens (pause w s)) \<and>
      cancelled token (tokens (snd (handleFileGeneration w userInput t s))) \<and>
      cancelled token (tokens (settle_attempt (e, s))) \<and>
      cancelled token (tokens (handleAIResponse w userInput s)) \<and>
      cancelled token (tokens (handleSubmit w inputText s))) \<and>
   (cancelToken s = Some token \<and> token < length (tokens s) \<longrightarrow>
      cancelled token (tokens (handleCancel s))) \<and>
   handleAIResponse w userInput s =
     settle_attempt
       (if isCodeGenerationRequest userInput \<and> isGenerationMode s
        then handleFileGeneration w userInput (length (tokens s))
               (s\<lparr>isLoading := True, currentStage := [],
                  liveCoding := (liveCoding s)\<lparr>isActive := False\<rparr>,
                  tokens := tokens s @ [False], cancelToken := Some (length (tokens s))\<rparr>)
        else plain_request w userInput
               (s\<lparr>isLoading := True, currentStage := [],
                  liveCoding := (liveCoding s)\<lparr>isActive := False\<rparr>,
                  tokens := tokens s @ [False], cancelToken := Some (length (tokens s))\<rparr>)) \<and>
   (isCodeGenerationRequest userInput \<and> isGenerationMode s \<and> click w (ticks s) \<longrightarrow>
      cancelled (length (tokens s)) (tokens (handleAIResponse w userInput s))) \<and>
   ((\<forall>k. \<not> click w k) \<longrightarrow>
      \<not> cancelled (length (tokens s)) (tokens (handleAIResponse w userInput s))) \<and>
   ((\<forall>k. \<not> click w k) \<and> isCodeGenerationRequest userInput \<and> isGenerationMode s \<longrightarrow>
      length (messages (handleAIResponse w userInput s)) +
      length (errorAlerts (handleAIResponse w userInput s)) =
        Suc (length (messages s) + length (errorAlerts s)))"
proof (intro conjI impI)
  show "\<not> cancelled (fst (createCancelToken store)) (snd (createCancelToken store))"
    by (simp add: createCancelToken_def cancelled_def)
  show "\<not> fst (createCancelToken store) < length store"
    by (simp add: createCancelToken_def)
  show "length (tokens (handleAIResponse w userInput s)) = Suc (length (tokens s))"
    using attempt_tokens [of w userInput s] by auto
  show "take (length (tokens s)) (tokens (handleAIResponse w userInput s)) = tokens s"
    using attempt_tokens [of w userInput s] by auto
  show "handleAIResponse w userInput s =
     settle_attempt
       (if isCodeGenerationRequest userInput \<and> isGenerationMode s
        then handleFileGeneration w userInput (length (tokens s))
               (s\<lparr>isLoading := True, currentStage := [],
                  liveCoding := (liveCoding s)\<lparr>isActive := False\<rparr>,
                  tokens := tokens s @ [False], cancelToken := Some (length (tokens s))\<rparr>)
        else plain_request w userInput
               (s\<lparr>isLoading := True, currentStage := [],
                  liveCoding := (liveCoding s)\<lparr>isActive := False\<rparr>,
                  tokens := tokens s @ [False], cancelToken := Some (length (tokens s))\<rparr>))"
    by (rule handleAIResponse_unfold)
next
  assume "cancelled token store"
  then show "cancelled token (fold token_step ops store)" by (rule cancelled_fold)
next
  assume c: "cancelled token (tokens s)"
  show "cancelled token (tokens (handleCancel s))"
    using only_cancels_keeps [OF _ c, of "w\<lparr>click := (\<lambda>k. True)\<rparr>" "handleCancel s"]
      oc_handleCancel [OF only_cancels_refl, of "w\<lparr>click := (\<lambda>k. True)\<rparr>" s]
    by (simp add: quiet_def)
  show "cancelled token (tokens (pause w s))"
    using only_cancels_keeps [OF oc_pause [OF only_cancels_refl] c] .
  show "cancelled token (tokens (snd (handleFileGeneration w userInput t s)))"
    using only_cancels_keeps [OF oc_handleFileGeneration [OF only_cancels_refl] c] .
  show "cancelled token (tokens (settle_attempt (e, s)))"
    using c by (simp add: tokens_settle)
  show "cancelled token (tokens (handleAIResponse w userInput s))"
    using c by (rule attempt_keeps)
  show "cancelled token (tokens (handleSubmit w inputText s))"
    using c by (auto simp: handleSubmit_def Let_def intro: attempt_keeps)
next
  assume "cancelToken s = Some token \<and> token < length (tokens s)"
  then show "cancelled token (tokens (handleCancel s))"
    by (simp add: handleCancel_def log_event_def cancel_def cancelled_def)
next
  assume "isCodeGenerationRequest userInput \<and> isGenerationMode s \<and> click w (ticks s)"
  then show "cancelled (length (tokens s)) (tokens (handleAIResponse w userInput s))"
    by (simp add: cancelled_at_first_await)
next
  assume "\<forall>k. \<not> click w k"
  then have "quiet w" by (simp add: quiet_def)
  then show "\<not> cancelled (length (tokens s)) (tokens (handleAIResponse w userInput s))"
    using attempt_tokens [of w userInput s] by (auto simp: cancelled_def)
next
  assume "(\<forall>k. \<not> click w k) \<and> isCodeGenerationRequest userInput \<and> isGenerationMode s"
  then show "length (messages (handleAIResponse w userInput s)) +
      length (errorAlerts (handleAIResponse w userInput s)) =
        Suc (length (messages s) + length (errorAlerts s))"
    by (simp add: logged_attempt quiet_def)
qed

lemma after_cancelled_facts:
  "tokens after_cancelled = [True]" "isGenerationMode after_cancelled"
  "isCodeGenerationRequest ''make a page''"
  by code_simp+

theorem cancel_token_monotone_witness:
  "cancelled 0 (tokens after_cancelled) \<and>
   cancelled 0 (tokens (handleAIResponse quiet_world ''make a page'' after_cancelled)) \<and>
   \<not> cancelled 1 (tokens (handleAIResponse quiet_world ''make a page'' after_cancelled)) \<and>
   length (messages (handleAIResponse quiet_world ''make a page'' after_cancelled)) +
   length (errorAlerts (handleAIResponse quiet_world ''make a page'' after_cancelled)) =
     Suc (length (messages after_cancelled) + length (errorAlerts after_cancelled))"
proof -
  note all = cancel_token_monotone [where store = "[True]" and token = 0 and ops = "[]"
      and w = quiet_world and userInput = "''make a page''" and s = after_cancelled
      and t = 0 and e = None and inputText = None]
  have still: "\<forall>k. \<not> click quiet_world k" by (simp add: quiet_world_def)
  have old: "cancelled 0 (tokens after_cancelled)"
    by (simp add: after_cancelled_facts cancelled_def)
  have run: "(\<forall>k. \<not> click quiet_world k) \<and> isCodeGenerationRequest ''make a page'' \<and>
             isGenerationMode after_cancelled"
    by (simp add: after_cancelled_facts quiet_world_def)
  from all [THEN conjunct2, THEN conjunct2, THEN conjunct2, THEN conjunct2, THEN conjunct2, THEN conjunct1, THEN mp, OF old]
  have kept: "cancelled 0 (tokens (handleAIResponse quiet_world ''make a page'' after_cancelled))"
    by simp
  from all [THEN conjunct2, THEN conjunct2, THEN conjunct2, THEN conjunct2, THEN conjunct2, THEN conjunct2, THEN conjunct2, THEN conjunct2, THEN conjunct2, THEN conjunct1, THEN mp, OF still]
  have fresh: "\<not> cancelled 1 (tokens (handleAIResponse quiet_world ''make a page'' after_cancelled))"
    by (simp add: after_cancelled_facts)
  note logged = all [THEN conjunct2, THEN conjunct2, THEN conjunct2, THEN conjunct2, THEN conjunct2, THEN conjunct2, THEN conjunct2, THEN conjunct2, THEN conjunct2, THEN conjunct2, THEN mp, OF run]
  from old kept fresh logged show ?thesis by simp
qed

section \<open>Properties of an attempt\<close>

text \<open>
  C2, at the input where the code departs from it. The answer of the server holds a code
  block. When Cancel is pressed during the delay of the second stage, the test of the
  token behind that delay returns and nothing is appended to the log. When it is pressed
  while the request is pending, the token is cancelled before the test at the head of the
  first file; that test leaves the loop with \<open>break\<close>, no file is typed, and the chat
  message of the generation is appended all the same. With the answer that \<open>/api/ask\<close>
  of this repository gives, which holds no code block, no test follows the request at
  all, and the message is appended as well.
\<close>

theorem cancel_during_request_appends:
  "messages (handleSubmit (cancel_during 1) (Some ''make a page'') (initial_client ''Hey!'')) =
     messages (initial_client ''Hey!'') @
       [\<lparr>msg_sender = User, msg_content = ''make a page'', msg_type = Normal, msg_metadata = None\<rparr>] \<and>
   tokens (handleSubmit (cancel_during 3) (Some ''make a page'') (initial_client ''Hey!'')) = [True] \<and>
   typed (handleSubmit (cancel_during 3) (Some ''make a page'') (initial_client ''Hey!'')) = [] \<and>
   messages (handleSubmit (cancel_during 3) (Some ''make a page'') (initial_client ''Hey!'')) =
     messages (initial_client ''Hey!'') @
       [\<lparr>msg_sender = User, msg_content = ''make a page'', msg_type = Normal, msg_metadata = None\<rparr>,
        \<lparr>msg_sender = AI, msg_content = fenced_reply, msg_type = Code, msg_metadata = None\<rparr>] \<and>
   tokens (handleSubmit (served_world\<lparr>click := (\<lambda>j. j = 3)\<rparr>) (Some ''make a todo list'')
             (initial_client ''Hey!'')) = [True] \<and>
   messages (handleSubmit (served_world\<lparr>click := (\<lambda>j. j = 3)\<rparr>) (Some ''make a todo list'')
               (initial_client ''Hey!'')) =
     messages (initial_client ''Hey!'') @
       [\<lparr>msg_sender = User, msg_content = ''make a todo list'', msg_type = Normal,
         msg_metadata = None\<rparr>,
        \<lparr>msg_sender = AI, msg_content = todo_announce, msg_type = Normal, msg_metadata = None\<rparr>]"
  by code_simp

text \<open>
  C4 as the claim states it fails: in a process that has just started, the answer to the
  prompt \<open>build me a todo app\<close> without \<open>requestType\<close> holds \<open>showBuildButton: false\<close> and
  an empty \<open>files\<close> mapping, and the chat message appended for it has no metadata.
\<close>

theorem todo_chat_counterexample:
  "reply (fst (ask_handler mem_env sample_templates (prompt_only ''build me a todo app'')
                 fresh_server)) =
     AskBody \<lparr>response = todo_announce, success = True, apiUsed = ''local'',
              showBuildButton = Some False, appPlan = None, reply_files = [],
              projectSaved = False\<rparr> \<and>
   messages (handleSubmit served_world (Some ''build me a todo app'') (initial_client ''Hey!'')) =
     messages (initial_client ''Hey!'') @
       [\<lparr>msg_sender = User, msg_content = ''build me a todo app'', msg_type = Normal,
         msg_metadata = None\<rparr>,
        \<lparr>msg_sender = AI, msg_content = todo_announce, msg_type = Normal, msg_metadata = None\<rparr>]"
  by code_simp


lemma todo_prompt_facts:
  "includes_str (toLowerCase ''build me a todo app'') ''todo''"
  "\<not> includes_str (toLowerCase ''build me a todo app'') ''calculator''"
  "isCodeGenerationRequest ''build me a todo app''"
  "match_code_blocks todo_announce = []"
  by code_simp+

lemma pause_quiet: "\<forall>k. \<not> click w k \<Longrightarrow> pause w s = s\<lparr>ticks := ticks s + 1\<rparr>"
  by (simp add: pause_def Let_def)

lemma todo_chat_reply:
  "fst (ask_handler env t (prompt_only ''build me a todo app'') srv) =
     \<lparr>status = 200,
      reply = AskBody \<lparr>response = todo_announce, success = True, apiUsed = ''local'',
                       showBuildButton = Some False, appPlan = None,
                       reply_files = stored_bundle srv,
                       projectSaved = (0 < length (stored_bundle srv))\<rparr>\<rparr> \<and>
   snd (ask_handler env t (prompt_only ''build me a todo app'') srv) = srv"
  using todo_prompt_facts(1,2)
  by (simp add: ask_handler_def ask_try_def generate_response_def prompt_only_def Let_def
      todo_announce_def)

text \<open>
  C4, amended. The request with the prompt \<open>build me a todo app\<close> and no \<open>requestType\<close>
  is a chat request: it is answered with status 200, the announcement of the todo app,
  \<open>showBuildButton: false\<close>, \<open>appPlan: null\<close> and, as \<open>files\<close>, the bundle the global
  slot holds (none in a process where nothing was built); it writes nothing and leaves the
  process as it was. When that answer reaches the client and Cancel is not pressed,
  submitting the prompt appends the user's message and one AI message with the
  announcement, of type \<open>normal\<close> and without metadata.
\<close>

theorem todo_chat_scenario:
  assumes link: "fetch w ''/api/ask'' ''build me a todo app'' =
                   as_fetched (fst (ask_handler env t (prompt_only ''build me a todo app'') srv))"
    and quiet: "\<forall>k. \<not> click w k"
    and idle: "\<not> isLoading c"
    and mode: "isGenerationMode c"
  shows "(\<exists>a. fst (ask_handler env t (prompt_only ''build me a todo app'') srv) =
               \<lparr>status = 200, reply = AskBody a\<rparr> \<and>
             success a \<and> response a = todo_announce \<and> showBuildButton a = Some False \<and>
             appPlan a = None \<and> reply_files a = stored_bundle srv) \<and>
         snd (ask_handler env t (prompt_only ''build me a todo app'') srv) = srv \<and>
         messages (handleSubmit w (Some ''build me a todo app'') c) =
           messages c @
             [\<lparr>msg_sender = User, msg_content = ''build me a todo app'', msg_type = Normal,
               msg_metadata = None\<rparr>,
              \<lparr>msg_sender = AI, msg_content = todo_announce, msg_type = Normal,
               msg_metadata = None\<rparr>]"
proof -
  let ?p = "''build me a todo app''"
  note srv = todo_chat_reply [of env t srv]
  have fetched: "fetch w ''/api/ask'' ?p =
      Replied True (reply_json (AskBody \<lparr>response = todo_announce, success = True,
                       apiUsed = ''local'', showBuildButton = Some False, appPlan = None,
                       reply_files = stored_bundle srv,
                       projectSaved = (0 < length (stored_bundle srv))\<rparr>))"
    using link srv by (simp add: as_fetched_def)
  have try_block: "generation_try w ?p token s =
      (None, (s\<lparr>ticks := ticks s + 2\<rparr>)
               \<lparr>messages := messages s @ [ai_message todo_announce [] []]\<rparr>)" for token s
    by (simp add: generation_try_def fetched pause_quiet [OF quiet] reply_json_def
        todo_prompt_facts(4) Let_def)
  have gen: "messages (snd (handleFileGeneration w ?p token s)) =
               messages s @ [ai_message todo_announce [] []] \<and>
             fst (handleFileGeneration w ?p token s) = None"
    if "\<not> cancelled token (tokens s)" for token s
    using that
    by (simp add: handleFileGeneration_def pause_quiet [OF quiet] try_block Let_def)
  let ?user = "\<lparr>msg_sender = User, msg_content = ?p, msg_type = Normal, msg_metadata = None\<rparr>"
  let ?c1 = "c\<lparr>messages := messages c @ [?user], inputValue := []\<rparr>"
  let ?s1 = "?c1\<lparr>isLoading := True, currentStage := [],
                 liveCoding := (liveCoding ?c1)\<lparr>isActive := False\<rparr>,
                 tokens := tokens c @ [False], cancelToken := Some (length (tokens c))\<rparr>"
  have fresh: "\<not> cancelled (length (tokens c)) (tokens ?s1)"
    by (simp add: cancelled_def)
  have "handleAIResponse w ?p ?c1 =
          settle_attempt (handleFileGeneration w ?p (length (tokens c)) ?s1)"
    using mode by (simp add: handleAIResponse_def createCancelToken_def todo_prompt_facts(3) Let_def)
  moreover have "messages (settle_attempt out) = messages (snd out)" if "fst out = None" for out
    using that by (simp add: settle_attempt_def Let_def)
  ultimately have "messages (handleAIResponse w ?p ?c1) =
      messages ?s1 @ [ai_message todo_announce [] []]"
    using gen [OF fresh] by simp
  moreover have "handleSubmit w (Some ?p) c = handleAIResponse w ?p ?c1"
    using idle by (simp add: handleSubmit_def Let_def)
  ultimately have "messages (handleSubmit w (Some ?p) c) =
      messages c @ [?user, ai_message todo_announce [] []]"
    by simp
  then show ?thesis using srv by (simp add: ai_message_def)
qed

theorem todo_chat_scenario_witness:
  "messages (handleSubmit served_world (Some ''build me a todo app'') (initial_client ''Hey!'')) =
     messages (initial_client ''Hey!'') @
       [\<lparr>msg_sender = User, msg_content = ''build me a todo app'', msg_type = Normal,
         msg_metadata = None\<rparr>,
        \<lparr>msg_sender = AI, msg_content = todo_announce, msg_type = Normal, msg_metadata = None\<rparr>]"
  using todo_chat_scenario [of served_world mem_env sample_templates fresh_server
                               "initial_client ''Hey!''"]
  by (simp add: served_world_def quiet_world_def initial_client_def)

end
